theory Spec2Isabelle
  imports Complex_Main
begin

section \<open>Finite-volume spatial discretisation (aspatial.cpp)\<close>

text \<open>
  This theory embeds the functions of \<^verbatim>\<open>src/aspatial.cpp\<close>: the constructor of
  \<^verbatim>\<open>Spatial\<close>, the ghost-cell centres, the matrix-free Jacobian-vector product, the
  constructor of \<^verbatim>\<open>FlowFV\<close>, the boundary states, the residual and the Jacobian
  assembly.

  Conventions of the embedding.
  \<^item> \<^verbatim>\<open>a_real\<close> (a double) is an exact real number: rounding is not modelled, so every
    equation below is an equation of exact arithmetic. The one division whose divisor
    can be exactly zero on a valid call, the local time step, is modelled with the
    IEEE-754 outcome of a division by zero (type \<open>xreal\<close>); the other divisions carry
    the non-zero divisor as a hypothesis of the theorem that needs it.
  \<^item> An array (\<^verbatim>\<open>Array2d\<close>, \<^verbatim>\<open>MVector\<close>, a C array) is a total function from its
    indices; \<^verbatim>\<open>a(i,j)\<close> is \<open>a i j\<close> and a pointer to row \<open>i\<close> is \<open>a i\<close>. The source
    checks no index, and an index outside the allocation is undefined behaviour there;
    theorems that need indices in range say so.
  \<^item> Memory that the source allocates and does not initialise holds \<open>uninitialised\<close>,
    a value about which nothing is known.
  \<^item> A \<^verbatim>\<open>for\<close> loop from \<open>lo\<close> to \<open>hi\<close> is \<open>fold body [lo..<hi]\<close>. The OpenMP loops
    are run in index order: their bodies only add to shared cells atomically, and
    addition of reals commutes.
  \<^item> Classes whose code lies outside this file (the mesh, the gas physics, the
    numerical fluxes, the gradient schemes, the limiters, the linear operator) appear
    through the member functions that aspatial.cpp calls, as fields of records.
\<close>

subsection \<open>Arrays\<close>

type_synonym vec = "nat \<Rightarrow> real"
type_synonym Array2d = "nat \<Rightarrow> nat \<Rightarrow> real"
type_synonym MVector = "nat \<Rightarrow> nat \<Rightarrow> real"

definition uninitialised :: "'a" where
  "uninitialised = undefined"

definition assign2d :: "Array2d \<Rightarrow> nat \<Rightarrow> nat \<Rightarrow> real \<Rightarrow> Array2d" where
  "assign2d a i j v = a(i := (a i)(j := v))"

text \<open>Modelled from the spec: NVARS = 4 conserved variables for the flow problem and
  NDIM = 2 space dimensions (both come from aconstants.hpp, which is not part of the
  sources at hand).\<close>

definition NVARS :: nat where
  "NVARS = 4"

definition NDIM :: nat where
  "NDIM = 2"

subsection \<open>The mesh, as aspatial.cpp reads it\<close>

text \<open>The accessors of \<^verbatim>\<open>UMesh2dh\<close> that the file calls. \<open>gintfac f 0\<close> and \<open>gintfac f 1\<close>
  are the left and right cell of face \<open>f\<close>, \<open>gintfac f 2\<close> and \<open>gintfac f 3\<close> its end
  points; \<open>ggallfa f 0\<close>, \<open>ggallfa f 1\<close> the unit normal, \<open>ggallfa f 2\<close> the length and
  \<open>ggallfa f 3\<close> the boundary marker.\<close>

record UMesh2dh =
  gnelem :: nat
  gnbface :: nat
  gnaface :: nat
  gndim :: nat
  gnnode :: "nat \<Rightarrow> nat"
  ginpoel :: "nat \<Rightarrow> nat \<Rightarrow> nat"
  gcoords :: "nat \<Rightarrow> nat \<Rightarrow> real"
  gintfac :: "nat \<Rightarrow> nat \<Rightarrow> nat"
  ggallfa :: "nat \<Rightarrow> nat \<Rightarrow> real"
  garea :: "nat \<Rightarrow> real"

subsection \<open>Spatial: cell centres and ghost-cell centres\<close>

record Spatial =
  mesh :: UMesh2dh
  eps :: real
  rc :: Array2d
  rcg :: Array2d

text \<open>The loop of the constructor that averages the nodes of each cell.\<close>

definition cell_centre_coord :: "UMesh2dh \<Rightarrow> nat \<Rightarrow> nat \<Rightarrow> Array2d \<Rightarrow> Array2d" where
  "cell_centre_coord msh ielem idim c =
     (let c = assign2d c ielem idim 0;
          c = fold (\<lambda>inode c. assign2d c ielem idim
                       (c ielem idim + gcoords msh (ginpoel msh ielem inode) idim))
                [0..<gnnode msh ielem] c
      in assign2d c ielem idim (c ielem idim / real (gnnode msh ielem)))"

definition cell_centres :: "UMesh2dh \<Rightarrow> Array2d \<Rightarrow> Array2d" where
  "cell_centres msh c =
     fold (\<lambda>ielem c. fold (cell_centre_coord msh ielem) [0..<gndim msh] c)
       [0..<gnelem msh] c"

definition ghost_about_midpoint_face :: "nat \<Rightarrow> Spatial \<Rightarrow> Spatial" where
  "ghost_about_midpoint_face iface sp =
     (let ielem = gintfac (mesh sp) iface 0;
          ip1 = gintfac (mesh sp) iface 2;
          ip2 = gintfac (mesh sp) iface 3;
          midpoint = fold (\<lambda>idim mp. mp(idim :=
                        0.5 * (gcoords (mesh sp) ip1 idim + gcoords (mesh sp) ip2 idim)))
                       [0..<NDIM] (uninitialised :: vec)
      in sp\<lparr>rcg := fold (\<lambda>idim gc. assign2d gc iface idim
                          (2 * midpoint idim - rc sp ielem idim))
                     [0..<NDIM] (rcg sp)\<rparr>)"

definition compute_ghost_cell_coords_about_midpoint :: "Spatial \<Rightarrow> Spatial" where
  "compute_ghost_cell_coords_about_midpoint sp =
     fold ghost_about_midpoint_face [0..<gnbface (mesh sp)] sp"

text \<open>The constructor. \<open>ZERO_TOL\<close> is a macro of aconstants.hpp and is taken as a
  parameter. The Gauss points \<^verbatim>\<open>gr\<close> are read by the limiters only and are left out.\<close>

definition Spatial_ctor :: "UMesh2dh \<Rightarrow> real \<Rightarrow> Spatial" where
  "Spatial_ctor msh ZERO_TOL =
     compute_ghost_cell_coords_about_midpoint
       \<lparr>mesh = msh, eps = sqrt ZERO_TOL / 10.0,
        rc = cell_centres msh uninitialised, rcg = uninitialised\<rparr>"

subsection \<open>Facts about the ghost-cell loop\<close>

lemma fold_NDIM:
  "fold f [0..<NDIM] s = f 1 (f 0 s)"
  by (simp add: NDIM_def upt_rec)

lemma less_NDIM:
  "idim < NDIM \<longleftrightarrow> idim = 0 \<or> idim = 1"
  by (auto simp: NDIM_def)

lemma ghost_face_mesh [simp]:
  "mesh (ghost_about_midpoint_face iface sp) = mesh sp"
  by (simp add: ghost_about_midpoint_face_def Let_def)

lemma ghost_face_rc [simp]:
  "rc (ghost_about_midpoint_face iface sp) = rc sp"
  by (simp add: ghost_about_midpoint_face_def Let_def)

lemma ghost_face_rcg:
  "rcg (ghost_about_midpoint_face iface sp) k idim =
     (if k = iface \<and> idim < NDIM
      then 2 * (0.5 * (gcoords (mesh sp) (gintfac (mesh sp) iface 2) idim
                     + gcoords (mesh sp) (gintfac (mesh sp) iface 3) idim))
           - rc sp (gintfac (mesh sp) iface 0) idim
      else rcg sp k idim)"
  by (auto simp: ghost_about_midpoint_face_def Let_def fold_NDIM assign2d_def less_NDIM)

lemma ghost_loop_mesh [simp]:
  "mesh (fold ghost_about_midpoint_face [0..<n] sp) = mesh sp"
  by (induction n) simp_all

lemma ghost_loop_rc [simp]:
  "rc (fold ghost_about_midpoint_face [0..<n] sp) = rc sp"
  by (induction n) simp_all

lemma ghost_loop_rcg:
  "rcg (fold ghost_about_midpoint_face [0..<n] sp) k idim =
     (if k < n \<and> idim < NDIM
      then 2 * (0.5 * (gcoords (mesh sp) (gintfac (mesh sp) k 2) idim
                     + gcoords (mesh sp) (gintfac (mesh sp) k 3) idim))
           - rc sp (gintfac (mesh sp) k 0) idim
      else rcg sp k idim)"
proof (induction n)
  case 0
  show ?case by simp
next
  case (Suc n)
  show ?case
    using Suc.IH by (simp add: ghost_face_rcg less_Suc_eq)
qed

lemma Spatial_ctor_mesh [simp]: "mesh (Spatial_ctor msh z) = msh"
  by (simp add: Spatial_ctor_def compute_ghost_cell_coords_about_midpoint_def)

lemma Spatial_ctor_eps [simp]: "eps (Spatial_ctor msh z) = sqrt z / 10"
proof -
  have "eps (fold ghost_about_midpoint_face [0..<n] sp) = eps sp" for n sp
    by (induction n) (simp_all add: ghost_about_midpoint_face_def Let_def)
  then show ?thesis
    by (simp add: Spatial_ctor_def compute_ghost_cell_coords_about_midpoint_def)
qed

lemma assign2d_apply:
  "assign2d a i j x k d = (if k = i \<and> d = j then x else a k d)"
  by (simp add: assign2d_def)

lemma node_sum_loop:
  "fold (\<lambda>inode c. assign2d c ielem idim (c ielem idim + f inode)) [0..<n] c k d
     = (if k = ielem \<and> d = idim then c ielem idim + (\<Sum>inode<n. f inode) else c k d)"
  by (induction n) (auto simp: assign2d_def)

lemma cell_centre_coord_apply:
  "cell_centre_coord msh ielem idim c k d
     = (if k = ielem \<and> d = idim
        then (\<Sum>inode<gnnode msh ielem. gcoords msh (ginpoel msh ielem inode) idim)
               / real (gnnode msh ielem)
        else c k d)"
  by (simp add: cell_centre_coord_def Let_def node_sum_loop assign2d_apply)

lemma cell_centre_dims:
  "fold (cell_centre_coord msh ielem) [0..<n] c k d
     = (if k = ielem \<and> d < n
        then (\<Sum>inode<gnnode msh ielem. gcoords msh (ginpoel msh ielem inode) d)
               / real (gnnode msh ielem)
        else c k d)"
  by (induction n) (auto simp: cell_centre_coord_apply less_Suc_eq)

lemma cell_centres_apply:
  "cell_centres msh c k d
     = (if k < gnelem msh \<and> d < gndim msh
        then (\<Sum>inode<gnnode msh k. gcoords msh (ginpoel msh k inode) d) / real (gnnode msh k)
        else c k d)"
proof -
  have "fold (\<lambda>ielem c. fold (cell_centre_coord msh ielem) [0..<gndim msh] c) [0..<n] c k d
          = (if k < n \<and> d < gndim msh
             then (\<Sum>inode<gnnode msh k. gcoords msh (ginpoel msh k inode) d) / real (gnnode msh k)
             else c k d)" for n
    by (induction n) (auto simp: cell_centre_dims less_Suc_eq)
  then show ?thesis
    by (simp add: cell_centres_def)
qed

lemma Spatial_ctor_rc:
  "rc (Spatial_ctor msh z) = cell_centres msh uninitialised"
  by (simp add: Spatial_ctor_def compute_ghost_cell_coords_about_midpoint_def)

lemma Spatial_ctor_rcg:
  "rcg (Spatial_ctor msh z) k idim =
     (if k < gnbface msh \<and> idim < NDIM
      then 2 * (0.5 * (gcoords msh (gintfac msh k 2) idim + gcoords msh (gintfac msh k 3) idim))
           - cell_centres msh uninitialised (gintfac msh k 0) idim
      else (uninitialised :: Array2d) k idim)"
  by (simp add: Spatial_ctor_def compute_ghost_cell_coords_about_midpoint_def ghost_loop_rcg)

text \<open>C7. Under the midpoint policy the ghost centre of every boundary face and the
  centre of its interior cell add up, in each coordinate, to twice the midpoint of the
  face, the midpoint being the average of the two end points of the face; the loop leaves
  the centres of the cells as they were. In the object that the constructor returns, the
  centre of the interior cell is the average of the nodes of the cell.\<close>

theorem ghost_centre_symmetry:
  assumes "iface < gnbface (mesh sp)" and "idim < NDIM"
  shows "rcg (compute_ghost_cell_coords_about_midpoint sp) iface idim
           + rc (compute_ghost_cell_coords_about_midpoint sp) (gintfac (mesh sp) iface 0) idim
         = 2 * ((gcoords (mesh sp) (gintfac (mesh sp) iface 2) idim
                 + gcoords (mesh sp) (gintfac (mesh sp) iface 3) idim) / 2)
       \<and> (sp = Spatial_ctor msh ZERO_TOL \<longrightarrow>
            rcg sp iface idim + rc sp (gintfac msh iface 0) idim
              = 2 * ((gcoords msh (gintfac msh iface 2) idim
                      + gcoords msh (gintfac msh iface 3) idim) / 2)
            \<and> (gintfac msh iface 0 < gnelem msh \<and> idim < gndim msh \<longrightarrow>
                 rc sp (gintfac msh iface 0) idim
                   = (\<Sum>inode<gnnode msh (gintfac msh iface 0).
                        gcoords msh (ginpoel msh (gintfac msh iface 0) inode) idim)
                     / real (gnnode msh (gintfac msh iface 0))))"
  using assms
  by (auto simp: compute_ghost_cell_coords_about_midpoint_def ghost_loop_rcg
      Spatial_ctor_rc Spatial_ctor_rcg cell_centres_apply)

subsection \<open>FlowFV: construction and initial state\<close>

text \<open>The gas physics object (class \<^verbatim>\<open>IdealGasPhysics\<close>, outside this file): its
  public data and the member functions that aspatial.cpp calls.\<close>

record IdealGasPhysics =
  g :: real
  Minf :: real
  Tinf :: real
  Reinf :: real
  Pr :: real
  getEnergyFromPrimitive2 :: "vec \<Rightarrow> real"
  getTemperatureFromConserved :: "vec \<Rightarrow> real"
  getSoundSpeedFromConserved :: "vec \<Rightarrow> real"
  getPressureFromConserved :: "vec \<Rightarrow> real"
  getEntropyFromConserved :: "vec \<Rightarrow> real"
  convertConservedToPrimitive :: "vec \<Rightarrow> vec"
  convertPrimitiveToConserved :: "vec \<Rightarrow> vec"

text \<open>The scheme objects, by the member function that is called on each:
  \<^verbatim>\<open>get_flux(ul, ur, n, flux)\<close> returns the array it fills,
  \<^verbatim>\<open>get_jacobian(ul, ur, n, dfdl, dfdr)\<close> the two matrices it fills,
  \<^verbatim>\<open>compute_gradients(u, ug, dudx, dudy)\<close> the two gradient arrays, given their old
  contents, and \<^verbatim>\<open>compute_face_values(u, ug, dudx, dudy, uleft, uright)\<close> the two arrays
  of face values, given their old contents.\<close>

type_synonym get_flux_t = "vec \<Rightarrow> vec \<Rightarrow> vec \<Rightarrow> vec"
type_synonym get_jacobian_t = "vec \<Rightarrow> vec \<Rightarrow> vec \<Rightarrow> Array2d \<times> Array2d"
type_synonym compute_gradients_t =
  "MVector \<Rightarrow> Array2d \<Rightarrow> Array2d \<times> Array2d \<Rightarrow> Array2d \<times> Array2d"
type_synonym compute_face_values_t =
  "MVector \<Rightarrow> Array2d \<Rightarrow> Array2d \<Rightarrow> Array2d \<Rightarrow> Array2d \<times> Array2d \<Rightarrow> Array2d \<times> Array2d"

record FlowFV = Spatial +
  physics :: IdealGasPhysics
  isothermal_wall_id :: int
  isothermalbaric_wall_id :: int
  adiabatic_wall_id :: int
  slip_wall_id :: int
  inflow_outflow_id :: int
  isothermal_wall_temperature :: real
  isothermal_wall_tangvel :: real
  isothermalbaric_wall_temperature :: real
  isothermalbaric_wall_tangvel :: real
  isothermalbaric_wall_pressure :: real
  adiabatic_wall_tangvel :: real
  reconstructPrimitive :: bool
  secondOrderRequested :: bool
  inviflux :: get_flux_t
  jflux :: get_jacobian_t
  rec :: compute_gradients_t
  lim' :: compute_face_values_t
  uinf :: Array2d

text \<open>The constructor. The flux, gradient and limiter objects that the source creates
  from the names \<^verbatim>\<open>invflux\<close>, \<^verbatim>\<open>jacflux\<close>, \<^verbatim>\<open>reconst\<close> and \<^verbatim>\<open>limiter\<close> are passed in as
  already created; of the names only \<^verbatim>\<open>reconst\<close> is kept, which decides
  \<^verbatim>\<open>secondOrderRequested\<close>. The physics object arrives constructed from
  \<^verbatim>\<open>(g, Minf, Tinf, Reinf, Pr)\<close>.\<close>

definition FlowFV_ctor ::
  "UMesh2dh \<Rightarrow> real \<Rightarrow> IdealGasPhysics \<Rightarrow> real \<Rightarrow> int \<Rightarrow> int \<Rightarrow> int \<Rightarrow> int \<Rightarrow> int
    \<Rightarrow> real \<Rightarrow> real \<Rightarrow> real \<Rightarrow> real \<Rightarrow> real \<Rightarrow> real
    \<Rightarrow> get_flux_t \<Rightarrow> get_jacobian_t \<Rightarrow> string \<Rightarrow> compute_gradients_t
    \<Rightarrow> compute_face_values_t \<Rightarrow> bool \<Rightarrow> FlowFV" where
  "FlowFV_ctor msh ZERO_TOL phys a
     isothermal_marker isothermalbaric_marker adiabatic_marker slip_marker inflowoutflow_marker
     isothermal_Temperature isothermal_TangVel isothermalbaric_Temperature
     isothermalbaric_TangVel isothermalbaric_Pressure adiabatic_TangVel
     invflux_obj jacflux_obj reconst rec_obj lim_obj reconstructPrim =
   (let sp = Spatial_ctor msh ZERO_TOL;
        u0 = (uninitialised :: Array2d);
        u0 = assign2d u0 0 0 1.0;
        u0 = assign2d u0 0 1 (cos a);
        u0 = assign2d u0 0 2 (sin a);
        u0 = assign2d u0 0 3 (1.0 / ((g phys - 1) * g phys * Minf phys * Minf phys) + 0.5)
    in Spatial.extend sp
         (FlowFV.fields phys isothermal_marker isothermalbaric_marker adiabatic_marker
            slip_marker inflowoutflow_marker
            (isothermal_Temperature / Tinf phys) isothermal_TangVel
            isothermalbaric_Temperature isothermalbaric_TangVel isothermalbaric_Pressure
            adiabatic_TangVel reconstructPrim
            (reconst = ''LEASTSQUARES'' \<or> reconst = ''GREENGAUSS'')
            invflux_obj jacflux_obj rec_obj lim_obj u0))"

definition initializeUnknowns :: "FlowFV \<Rightarrow> bool \<Rightarrow> string \<Rightarrow> MVector \<Rightarrow> MVector" where
  "initializeUnknowns fv fromfile file u =
     (if fromfile then u
      else fold (\<lambda>i u. fold (\<lambda>j u. assign2d u i j (uinf fv 0 j)) [0..<NVARS] u)
             [0..<gnelem (mesh fv)] u)"

subsection \<open>Facts about the initial state\<close>

lemma fold_NVARS:
  "fold f [0..<NVARS] s = f 3 (f 2 (f 1 (f 0 s)))"
  by (simp add: NVARS_def upt_rec eval_nat_numeral)

lemma less_NVARS:
  "j < NVARS \<longleftrightarrow> j = 0 \<or> j = 1 \<or> j = 2 \<or> j = 3"
  by (auto simp: NVARS_def)

lemma init_row:
  "fold (\<lambda>j u. assign2d u i j (w j)) [0..<NVARS] u k j =
     (if k = i \<and> j < NVARS then w j else u k j)"
  by (auto simp: fold_NVARS assign2d_def less_NVARS)

lemma init_rows:
  "fold (\<lambda>i u. fold (\<lambda>j u. assign2d u i j (w j)) [0..<NVARS] u) [0..<n] u k j =
     (if k < n \<and> j < NVARS then w j else u k j)"
  by (induction n) (simp_all add: init_row less_Suc_eq)

lemma FlowFV_ctor_mesh:
  "mesh (FlowFV_ctor msh ZERO_TOL phys a i1 i2 i3 i4 i5 t1 t2 t3 t4 t5 t6 fl jf rs ro lo rp) = msh"
  by (simp add: FlowFV_ctor_def Let_def Spatial.defs FlowFV.defs Spatial_ctor_def
      compute_ghost_cell_coords_about_midpoint_def)

lemma FlowFV_ctor_uinf:
  "uinf (FlowFV_ctor msh ZERO_TOL phys a i1 i2 i3 i4 i5 t1 t2 t3 t4 t5 t6 fl jf rs ro lo rp) 0 =
     ((uninitialised :: Array2d) 0)(0 := 1, 1 := cos a, 2 := sin a,
        3 := 1 / ((g phys - 1) * g phys * Minf phys * Minf phys) + 1 / 2)"
  by (simp add: FlowFV_ctor_def Let_def Spatial.defs FlowFV.defs assign2d_def)

text \<open>C8. The free-stream state that the constructor stores is
  \<open>(1, cos \<alpha>, sin \<alpha>, 1 / ((\<gamma> - 1) \<gamma> M\<^sub>\<infinity>\<^sup>2) + 1/2)\<close>, and \<open>initializeUnknowns\<close> with
  \<open>fromfile = false\<close> sets every variable of every cell of the mesh to it.\<close>

theorem freestream_state_and_initial_condition:
  assumes "fv = FlowFV_ctor msh ZERO_TOL phys a i1 i2 i3 i4 i5 t1 t2 t3 t4 t5 t6 fl jf rs ro lo rp"
  shows "uinf fv 0 0 = 1 \<and> uinf fv 0 1 = cos a \<and> uinf fv 0 2 = sin a
         \<and> uinf fv 0 3 = 1 / ((g phys - 1) * g phys * (Minf phys)\<^sup>2) + 1 / 2
         \<and> (\<forall>i j. i < gnelem msh \<and> j < NVARS \<longrightarrow>
               initializeUnknowns fv False file u i j = uinf fv 0 j)"
  unfolding assms
  by (simp add: FlowFV_ctor_uinf FlowFV_ctor_mesh initializeUnknowns_def init_rows
      power2_eq_square)

subsection \<open>Boundary states\<close>

definition array_of :: "real list \<Rightarrow> vec" where
  "array_of xs = (\<lambda>k. xs ! k)"

text \<open>The five \<^verbatim>\<open>if\<close> statements of \<^verbatim>\<open>compute_boundary_state\<close> follow one another (none is
  an \<^verbatim>\<open>else\<close> branch), so a later one overwrites what an earlier one stored when the
  marker of the face equals both ids. \<open>characteristic_id\<close> is the local constant -1.\<close>

definition characteristic_id :: int where
  "characteristic_id = - 1"

definition compute_boundary_state :: "FlowFV \<Rightarrow> nat \<Rightarrow> vec \<Rightarrow> vec \<Rightarrow> vec" where
  "compute_boundary_state fv ied ins bs =
     (let nx = ggallfa (mesh fv) ied 0;
          ny = ggallfa (mesh fv) ied 1;
          vni = (ins 1 * nx + ins 2 * ny) / ins 0;
          bs = (if ggallfa (mesh fv) ied 3 = of_int (slip_wall_id fv)
                then (let bs = bs(0 := ins 0);
                          bs = bs(1 := ins 1 - 2 * vni * nx * bs 0);
                          bs = bs(2 := ins 2 - 2 * vni * ny * bs 0)
                      in bs(3 := ins 3))
                else bs);
          bs = (if ggallfa (mesh fv) ied 3 = of_int (isothermal_wall_id fv)
                then (let bs = bs(0 := ins 0);
                          bs = bs(1 := - ins 1);
                          bs = bs(2 := - ins 2);
                          prim2state = array_of [bs 0, bs 1 / bs 0, bs 2 / bs 0,
                                                 isothermal_wall_temperature fv]
                      in bs(3 := getEnergyFromPrimitive2 (physics fv) prim2state))
                else bs);
          bs = (if ggallfa (mesh fv) ied 3 = of_int (adiabatic_wall_id fv)
                then (let bs = bs(0 := ins 0);
                          bs = bs(1 := - ins 1);
                          bs = bs(2 := - ins 2);
                          Tins = getTemperatureFromConserved (physics fv) ins;
                          prim2state = array_of [bs 0, bs 1 / bs 0, bs 2 / bs 0, Tins]
                      in bs(3 := getEnergyFromPrimitive2 (physics fv) prim2state))
                else bs);
          bs = (if ggallfa (mesh fv) ied 3 = of_int (inflow_outflow_id fv)
                then fold (\<lambda>i bs. bs(i := uinf fv 0 i)) [0..<NVARS] bs
                else bs);
          bs = (if ggallfa (mesh fv) ied 3 = of_int characteristic_id
                then (let ci = getSoundSpeedFromConserved (physics fv) ins;
                          Mni = vni / ci;
                          pinf = getPressureFromConserved (physics fv) (uinf fv 0)
                      in if Mni \<le> 0
                         then fold (\<lambda>i bs. bs(i := uinf fv 0 i)) [0..<NVARS] bs
                         else if Mni \<le> 1
                         then (let bs = bs(0 := ins 0);
                                   bs = bs(1 := ins 1);
                                   bs = bs(2 := ins 2)
                               in bs(3 := pinf / (g (physics fv) - 1.0)
                                          + 0.5 * (ins 1 * ins 1 + ins 2 * ins 2) / ins 0))
                         else fold (\<lambda>i bs. bs(i := ins i)) [0..<NVARS] bs)
                else bs)
      in bs)"

definition compute_boundary_states :: "FlowFV \<Rightarrow> Array2d \<Rightarrow> Array2d \<Rightarrow> Array2d" where
  "compute_boundary_states fv ins bs =
     fold (\<lambda>ied bs. bs(ied := compute_boundary_state fv ied (ins ied) (bs ied)))
       [0..<gnbface (mesh fv)] bs"

text \<open>The ghost state that the spec gives for a slip wall, in the spec's words:
  density and total energy kept, the momentum mirrored in the normal.\<close>

definition slip_wall_ghost_spec :: "real \<Rightarrow> real \<Rightarrow> vec \<Rightarrow> vec \<Rightarrow> bool" where
  "slip_wall_ghost_spec nx ny ins bs \<longleftrightarrow>
     bs 0 = ins 0
     \<and> bs 1 = ins 1 - 2 * (ins 1 * nx + ins 2 * ny) * nx
     \<and> bs 2 = ins 2 - 2 * (ins 1 * nx + ins 2 * ny) * ny
     \<and> bs 3 = ins 3"

subsection \<open>The residual\<close>

text \<open>The quotient of two finite doubles as IEEE-754 gives it when the divisor may be
  zero: the divisor of the time step is a sum of non-negative terms that starts at
  \<open>0.0\<close>, so a zero divisor is \<open>+0.0\<close>.\<close>

datatype xreal = Finite real | PlusInfinity | MinusInfinity | NotANumber

definition ieee_div :: "real \<Rightarrow> real \<Rightarrow> xreal" where
  "ieee_div a b =
     (if b \<noteq> 0 then Finite (a / b)
      else if 0 < a then PlusInfinity
      else if a < 0 then MinusInfinity
      else NotANumber)"


definition store_row :: "Array2d \<Rightarrow> nat \<Rightarrow> vec \<Rightarrow> Array2d" where
  "store_row a i w = fold (\<lambda>ivar a. assign2d a i ivar (w ivar)) [0..<NVARS] a"

definition face_normal :: "UMesh2dh \<Rightarrow> nat \<Rightarrow> vec" where
  "face_normal msh ied =
     (let n = (uninitialised :: vec);
          n = n(0 := ggallfa msh ied 0)
      in n(1 := ggallfa msh ied 1))"

text \<open>Everything \<^verbatim>\<open>compute_residual\<close> does before its flux loop: the left and right
  state of every face.\<close>

definition face_states :: "FlowFV \<Rightarrow> MVector \<Rightarrow> Array2d \<times> Array2d" where
  "face_states fv u =
     (let msh = mesh fv;
          dudx = (uninitialised :: Array2d);
          dudy = (uninitialised :: Array2d);
          ug = (uninitialised :: Array2d);
          uleft = (uninitialised :: Array2d);
          uright = (uninitialised :: Array2d);
          uleft = fold (\<lambda>ied ul. store_row ul ied (u (gintfac msh ied 0)))
                    [0..<gnbface msh] uleft;
          (uleft, uright) =
            (if secondOrderRequested fv
             then (let ug = compute_boundary_states fv uleft ug
                   in if reconstructPrimitive fv
                      then (let up = (uninitialised :: MVector);
                                ug = fold (\<lambda>iface ug. store_row ug iface
                                             (convertConservedToPrimitive (physics fv) (ug iface)))
                                       [0..<gnbface msh] ug;
                                up = fold (\<lambda>iel up. store_row up iel
                                             (convertConservedToPrimitive (physics fv) (u iel)))
                                       [0..<gnelem msh] up;
                                (dudx, dudy) = rec fv up ug (dudx, dudy);
                                (uleft, uright) = lim' fv up ug dudx dudy (uleft, uright);
                                (uleft, uright) =
                                  fold (\<lambda>iface (ul, ur).
                                          (store_row ul iface
                                             (convertPrimitiveToConserved (physics fv) (ul iface)),
                                           store_row ur iface
                                             (convertPrimitiveToConserved (physics fv) (ur iface))))
                                    [gnbface msh..<gnaface msh] (uleft, uright);
                                uleft = fold (\<lambda>iface ul. store_row ul iface
                                                (convertPrimitiveToConserved (physics fv) (ul iface)))
                                          [0..<gnbface msh] uleft
                            in (uleft, uright))
                      else (let (dudx, dudy) = rec fv u ug (dudx, dudy)
                            in lim' fv u ug dudx dudy (uleft, uright)))
             else fold (\<lambda>ied (ul, ur).
                          (store_row ul ied (u (gintfac msh ied 0)),
                           store_row ur ied (u (gintfac msh ied 1))))
                    [gnbface msh..<gnaface msh] (uleft, uright));
          uright = compute_boundary_states fv uleft uright
      in (uleft, uright))"

text \<open>The body of the flux loop for face \<open>ied\<close>, on the residual and the wave-speed
  integral \<^verbatim>\<open>integ\<close>.\<close>

definition flux_face ::
  "FlowFV \<Rightarrow> Array2d \<Rightarrow> Array2d \<Rightarrow> nat \<Rightarrow> MVector \<times> vec \<Rightarrow> MVector \<times> vec" where
  "flux_face fv uleft uright ied = (\<lambda>(residual, integ).
     (let msh = mesh fv;
          n = face_normal msh ied;
          len = ggallfa msh ied 2;
          lelem = gintfac msh ied 0;
          relem = gintfac msh ied 1;
          fluxes = inviflux fv (uleft ied) (uright ied) n;
          fluxes = fold (\<lambda>ivar fl. fl(ivar := fl ivar * len)) [0..<NVARS] fluxes;
          p_i = (g (physics fv) - 1) * (uleft ied 3
                 - 0.5 * ((uleft ied 1)\<^sup>2 + (uleft ied 2)\<^sup>2) / uleft ied 0);
          p_j = (g (physics fv) - 1) * (uright ied 3
                 - 0.5 * ((uright ied 1)\<^sup>2 + (uright ied 2)\<^sup>2) / uright ied 0);
          ci = sqrt (g (physics fv) * p_i / uleft ied 0);
          cj = sqrt (g (physics fv) * p_j / uright ied 0);
          vni = (uleft ied 1 * n 0 + uleft ied 2 * n 1) / uleft ied 0;
          vnj = (uright ied 1 * n 0 + uright ied 2 * n 1) / uright ied 0;
          residual = fold (\<lambda>ivar r. assign2d r lelem ivar (r lelem ivar + fluxes ivar))
                       [0..<NVARS] residual;
          residual = (if relem < gnelem msh
                      then fold (\<lambda>ivar r. assign2d r relem ivar (r relem ivar - fluxes ivar))
                             [0..<NVARS] residual
                      else residual);
          integ = integ(lelem := integ lelem + (\<bar>vni\<bar> + ci) * len);
          integ = (if relem < gnelem msh
                   then integ(relem := integ relem + (\<bar>vnj\<bar> + cj) * len)
                   else integ)
      in (residual, integ)))"

definition compute_residual ::
  "FlowFV \<Rightarrow> MVector \<Rightarrow> MVector \<Rightarrow> bool \<Rightarrow> (nat \<Rightarrow> xreal) \<Rightarrow> MVector \<times> (nat \<Rightarrow> xreal)" where
  "compute_residual fv u residual gettimesteps dtm =
     (let msh = mesh fv;
          integ = fold (\<lambda>iel w. w(iel := 0.0)) [0..<gnelem msh] (uninitialised :: vec);
          (uleft, uright) = face_states fv u;
          (residual, integ) = fold (flux_face fv uleft uright) [0..<gnaface msh] (residual, integ);
          dtm = (if gettimesteps
                 then fold (\<lambda>iel d. d(iel := ieee_div (garea msh iel) (integ iel)))
                        [0..<gnelem msh] dtm
                 else dtm)
      in (residual, dtm))"

subsection \<open>The matrix-free Jacobian-vector product\<close>

text \<open>\<^verbatim>\<open>x.data()[i]\<close> of a row-major array with \<open>NVARS\<close> columns.\<close>

definition flat :: "MVector \<Rightarrow> nat \<Rightarrow> real" where
  "flat a i = a (i div NVARS) (i mod NVARS)"

definition flat_assign :: "MVector \<Rightarrow> nat \<Rightarrow> real \<Rightarrow> MVector" where
  "flat_assign a i x = assign2d a (i div NVARS) (i mod NVARS) x"

text \<open>Modelled from the spec: \<^verbatim>\<open>dot\<close> and \<^verbatim>\<open>axpbypcz\<close> are helpers of alinalg.hpp, which is
  not part of the sources at hand. The spec's formula \<open>R(u + \<epsilon> v / \<parallel>v\<parallel>)\<close> and the
  comment at the call ("compute the perturbed state and store in aux") make \<^verbatim>\<open>dot(N,a,b)\<close>
  the sum of the products of the first \<open>N\<close> entries and \<^verbatim>\<open>axpbypcz(N,p,z,q,x,r,y)\<close> the
  update \<open>z \<leftarrow> p z + q x + r y\<close> of the first \<open>N\<close> entries.\<close>

definition dot :: "nat \<Rightarrow> MVector \<Rightarrow> MVector \<Rightarrow> real" where
  "dot N a b = fold (\<lambda>i s. s + flat a i * flat b i) [0..<N] 0"

definition axpbypcz ::
  "nat \<Rightarrow> real \<Rightarrow> MVector \<Rightarrow> real \<Rightarrow> MVector \<Rightarrow> real \<Rightarrow> MVector \<Rightarrow> MVector" where
  "axpbypcz N p z q x r y =
     fold (\<lambda>i z. flat_assign z i (p * flat z i + q * flat x i + r * flat y i)) [0..<N] z"

text \<open>\<^verbatim>\<open>Spatial<nvars>::compute_jac_vec\<close> at \<open>nvars = NVARS\<close>, where the virtual
  \<^verbatim>\<open>compute_residual\<close> is that of \<^verbatim>\<open>FlowFV\<close>. The time steps \<open>dtm\<close> it reads are finite
  reals here. It returns the two arrays it writes, \<open>aux\<close> and \<^verbatim>\<open>prod\<close> (here \<open>prd\<close>).\<close>

definition compute_jac_vec ::
  "FlowFV \<Rightarrow> MVector \<Rightarrow> MVector \<Rightarrow> MVector \<Rightarrow> bool \<Rightarrow> vec \<Rightarrow> MVector \<Rightarrow> MVector
     \<Rightarrow> MVector \<times> MVector" where
  "compute_jac_vec fv resu u v add_time_deriv dtm aux prd =
     (let msh = mesh fv;
          N = gnelem msh * NVARS;
          vnorm = dot N v v;
          vnorm = sqrt vnorm;
          aux = axpbypcz N 0.0 aux 1.0 u (eps fv / vnorm) v;
          dummy = (uninitialised :: nat \<Rightarrow> xreal);
          (prd, dummy) = compute_residual fv aux prd False dummy;
          prd = fold (\<lambda>i p. flat_assign p i ((flat p i - flat resu i) / (eps fv / vnorm)))
                   [0..<gnelem msh * NVARS] prd;
          prd = (if add_time_deriv
                  then fold (\<lambda>iel p. fold (\<lambda>ivar p. assign2d p iel ivar
                                (p iel ivar + garea msh iel / dtm iel * v iel ivar))
                              [0..<NVARS] p)
                         [0..<gnelem msh] prd
                  else prd)
      in (aux, prd))"

subsection \<open>The Jacobian assembly\<close>

text \<open>The linear operator is an abstract class; aspatial.cpp asks it for its
  \<^verbatim>\<open>type()\<close> and calls \<^verbatim>\<open>updateDiagBlock\<close> and \<^verbatim>\<open>submitBlock\<close> on it. Its state is
  the sequence of calls it has received, each with its arguments.\<close>

datatype operator_call =
  UpdateDiagBlock nat Array2d nat
| SubmitBlock nat nat Array2d nat nat

record LinearOperator =
  op_type :: char
  op_calls :: "operator_call list"

definition updateDiagBlock :: "nat \<Rightarrow> Array2d \<Rightarrow> nat \<Rightarrow> LinearOperator \<Rightarrow> LinearOperator" where
  "updateDiagBlock row blk n A = A\<lparr>op_calls := op_calls A @ [UpdateDiagBlock row blk n]\<rparr>"

definition submitBlock ::
  "nat \<Rightarrow> nat \<Rightarrow> Array2d \<Rightarrow> nat \<Rightarrow> nat \<Rightarrow> LinearOperator \<Rightarrow> LinearOperator" where
  "submitBlock row col blk arg1 arg2 A =
     A\<lparr>op_calls := op_calls A @ [SubmitBlock row col blk arg1 arg2]\<rparr>"

definition scale_block :: "real \<Rightarrow> Array2d \<Rightarrow> Array2d" where
  "scale_block c M = (\<lambda>i j. c * M i j)"

definition jacobian_boundary_face :: "FlowFV \<Rightarrow> MVector \<Rightarrow> nat \<Rightarrow> LinearOperator \<Rightarrow> LinearOperator" where
  "jacobian_boundary_face fv u iface A =
     (let msh = mesh fv;
          lelem = gintfac msh iface 0;
          n = face_normal msh iface;
          len = ggallfa msh iface 2;
          uface = compute_boundary_state fv iface (u lelem) (uninitialised :: vec);
          (left, right) = jflux fv (u lelem) uface n;
          left = scale_block (- len) left
      in updateDiagBlock (lelem * NVARS) left NVARS A)"

definition jacobian_interior_face :: "FlowFV \<Rightarrow> MVector \<Rightarrow> nat \<Rightarrow> LinearOperator \<Rightarrow> LinearOperator" where
  "jacobian_interior_face fv u iface A =
     (let msh = mesh fv;
          intface = iface - gnbface msh;
          lelem = gintfac msh iface 0;
          relem = gintfac msh iface 1;
          n = face_normal msh iface;
          len = ggallfa msh iface 2;
          (L, U) = jflux fv (u lelem) (u relem) n;
          L = scale_block len L;
          U = scale_block len U;
          A = (if op_type A = CHR ''d''
               then submitBlock (lelem * NVARS) (relem * NVARS) U 2 intface
                      (submitBlock (relem * NVARS) (lelem * NVARS) L 1 intface A)
               else submitBlock (lelem * NVARS) (relem * NVARS) U NVARS NVARS
                      (submitBlock (relem * NVARS) (lelem * NVARS) L NVARS NVARS A));
          L = scale_block (- 1.0) L;
          U = scale_block (- 1.0) U
      in updateDiagBlock (relem * NVARS) U NVARS (updateDiagBlock (lelem * NVARS) L NVARS A))"

definition compute_jacobian :: "FlowFV \<Rightarrow> MVector \<Rightarrow> LinearOperator \<Rightarrow> LinearOperator" where
  "compute_jacobian fv u A =
     fold (jacobian_interior_face fv u) [gnbface (mesh fv)..<gnaface (mesh fv)]
       (fold (jacobian_boundary_face fv u) [0..<gnbface (mesh fv)] A)"

subsection \<open>A small mesh and flow problem for concrete evaluation\<close>

text \<open>Two unit squares side by side, cell 0 on \<open>[0,1] \<times> [0,1]\<close> and cell 1 on
  \<open>[1,2] \<times> [0,1]\<close>. Face 0 is the boundary face \<open>x = 0\<close> (marker 4), face 1 the boundary
  face \<open>x = 2\<close> (marker 2), face 2 the interior face \<open>x = 1\<close>. The right cell of a
  boundary face is a ghost slot, \<open>gnelem\<close> plus the face index.\<close>

definition example_mesh :: UMesh2dh where
  "example_mesh =
     \<lparr>gnelem = 2, gnbface = 2, gnaface = 3, gndim = 2,
      gnnode = (\<lambda>e. 4),
      ginpoel = (\<lambda>e k. [[0, 1, 4, 3], [1, 2, 5, 4]] ! e ! k),
      gcoords = (\<lambda>p d. [[0, 0], [1, 0], [2, 0], [0, 1], [1, 1], [2, 1]] ! p ! d),
      gintfac = (\<lambda>f k. [[0, 2, 3, 0], [1, 3, 2, 5], [0, 1, 1, 4]] ! f ! k),
      ggallfa = (\<lambda>f k. [[- 1, 0, 1, 4], [1, 0, 1, 2], [1, 0, 1, 0]] ! f ! k),
      garea = (\<lambda>e. 1)\<rparr>"

definition example_physics :: IdealGasPhysics where
  "example_physics =
     \<lparr>g = 7 / 5, Minf = 1 / 2, Tinf = 1, Reinf = 0, Pr = 0,
      getEnergyFromPrimitive2 = (\<lambda>p. p 3),
      getTemperatureFromConserved = (\<lambda>w. w 3 / w 0),
      getSoundSpeedFromConserved = (\<lambda>w. 1),
      getPressureFromConserved = (\<lambda>w. (2 / 5) * (w 3 - (w 1 * w 1 + w 2 * w 2) / (2 * w 0))),
      getEntropyFromConserved = (\<lambda>w. 1),
      convertConservedToPrimitive = (\<lambda>w. w),
      convertPrimitiveToConserved = (\<lambda>w. w)\<rparr>"

text \<open>The central flux \<open>(u\<^sub>L + u\<^sub>R) / 2\<close> and its two Jacobian blocks in the sign
  convention of \<^verbatim>\<open>get_jacobian\<close>.\<close>

definition example_flux :: get_flux_t where
  "example_flux ul ur n = (\<lambda>k. (ul k + ur k) / 2)"

definition example_jflux :: get_jacobian_t where
  "example_jflux ul ur n =
     (\<lambda>i j. if i = j then - (1 / 2) else 0, \<lambda>i j. if i = j then 1 / 2 else 0)"

definition example_rec :: compute_gradients_t where
  "example_rec u ug = (\<lambda>(dudx, dudy). (\<lambda>i j. 0, \<lambda>i j. 0))"

definition example_lim :: compute_face_values_t where
  "example_lim u ug dudx dudy = (\<lambda>(uleft, uright). (uleft, uright))"

definition example_flow :: "UMesh2dh \<Rightarrow> int \<Rightarrow> int \<Rightarrow> get_jacobian_t \<Rightarrow> FlowFV" where
  "example_flow msh slip_marker inflowoutflow_marker jac =
     FlowFV_ctor msh (22 / 10 ^ 17) example_physics 0
       (- 1) (- 1) (- 1) slip_marker inflowoutflow_marker
       1 0 1 0 1 0 example_flux jac ''NONE'' example_rec example_lim False"

definition example_fv :: FlowFV where
  "example_fv = example_flow example_mesh 2 4 example_jflux"

definition example_u :: MVector where
  "example_u = (\<lambda>i k. [[1, 1, 0, 3], [2, 1, 0, 5]] ! i ! k)"

subsection \<open>Facts about the example\<close>

lemma example_flow_fields [simp]:
  "mesh (example_flow msh s i jf) = msh"
  "eps (example_flow msh s i jf) = sqrt (22 / 10 ^ 17) / 10"
  "physics (example_flow msh s i jf) = example_physics"
  "isothermal_wall_id (example_flow msh s i jf) = - 1"
  "adiabatic_wall_id (example_flow msh s i jf) = - 1"
  "slip_wall_id (example_flow msh s i jf) = s"
  "inflow_outflow_id (example_flow msh s i jf) = i"
  "secondOrderRequested (example_flow msh s i jf) = False"
  "reconstructPrimitive (example_flow msh s i jf) = False"
  "inviflux (example_flow msh s i jf) = example_flux"
  "jflux (example_flow msh s i jf) = jf"
  by (simp_all add: example_flow_def FlowFV_ctor_def Let_def Spatial.defs FlowFV.defs)

lemma example_flow_uinf [simp]:
  "uinf (example_flow msh s i jf) 0 0 = 1"
  "uinf (example_flow msh s i jf) 0 (Suc 0) = 1"
  "uinf (example_flow msh s i jf) 0 2 = 0"
  "uinf (example_flow msh s i jf) 0 3 = 107 / 14"
  by (simp_all add: example_flow_def FlowFV_ctor_uinf example_physics_def)

lemma example_mesh_simps [simp]:
  "gnelem example_mesh = 2" "gnbface example_mesh = 2" "gnaface example_mesh = 3"
  "gintfac example_mesh 0 0 = 0" "gintfac example_mesh 0 (Suc 0) = 2"
  "gintfac example_mesh (Suc 0) 0 = 1" "gintfac example_mesh (Suc 0) (Suc 0) = 3"
  "gintfac example_mesh 2 0 = 0" "gintfac example_mesh 2 (Suc 0) = 1"
  "ggallfa example_mesh 0 0 = - 1" "ggallfa example_mesh 0 (Suc 0) = 0"
  "ggallfa example_mesh 0 2 = 1" "ggallfa example_mesh 0 3 = 4"
  "ggallfa example_mesh (Suc 0) 0 = 1" "ggallfa example_mesh (Suc 0) (Suc 0) = 0"
  "ggallfa example_mesh (Suc 0) 2 = 1" "ggallfa example_mesh (Suc 0) 3 = 2"
  "ggallfa example_mesh 2 0 = 1" "ggallfa example_mesh 2 (Suc 0) = 0"
  "ggallfa example_mesh 2 2 = 1" "ggallfa example_mesh 2 3 = 0"
  "garea example_mesh e = 1"
  by (simp_all add: example_mesh_def)

lemma example_u_simps [simp]:
  "example_u 0 0 = 1" "example_u 0 (Suc 0) = 1" "example_u 0 2 = 0" "example_u 0 3 = 3"
  "example_u (Suc 0) 0 = 2" "example_u (Suc 0) (Suc 0) = 1" "example_u (Suc 0) 2 = 0"
  "example_u (Suc 0) 3 = 5"
  by (simp_all add: example_u_def)

section \<open>The ghost-cell centres and the free stream on the example\<close>

text \<open>The ghost-centre symmetry at boundary face 0 of the example mesh, first coordinate.\<close>

theorem ghost_centre_symmetry_witness:
  "(0::nat) < gnbface (mesh (Spatial_ctor example_mesh (22 / 10 ^ 17))) \<and> (0::nat) < NDIM
   \<and> gintfac example_mesh 0 0 < gnelem example_mesh \<and> 0 < gndim example_mesh
   \<and> rcg (Spatial_ctor example_mesh (22 / 10 ^ 17)) 0 0 = - (1 / 2)
   \<and> rc (Spatial_ctor example_mesh (22 / 10 ^ 17)) (gintfac example_mesh 0 0) 0 = 1 / 2
   \<and> 2 * ((gcoords example_mesh (gintfac example_mesh 0 2) 0
           + gcoords example_mesh (gintfac example_mesh 0 3) 0) / 2) = 0"
proof -
  have a: "(0::nat) < gnbface (mesh (Spatial_ctor example_mesh (22 / 10 ^ 17)))" "(0::nat) < NDIM"
    by (simp_all add: NDIM_def)
  note t = ghost_centre_symmetry [OF a, of example_mesh "22 / 10 ^ 17"]
  have b: "gintfac example_mesh 0 0 < gnelem example_mesh \<and> 0 < gndim example_mesh"
    by (simp add: example_mesh_def)
  have s: "(\<Sum>inode<gnnode example_mesh (gintfac example_mesh 0 0).
               gcoords example_mesh (ginpoel example_mesh (gintfac example_mesh 0 0) inode) 0)
             / real (gnnode example_mesh (gintfac example_mesh 0 0)) = 1 / 2"
    by (simp add: example_mesh_def eval_nat_numeral)
  have m: "2 * ((gcoords example_mesh (gintfac example_mesh 0 2) 0
           + gcoords example_mesh (gintfac example_mesh 0 3) 0) / 2) = 0"
    by (simp add: example_mesh_def)
  from t b s have r: "rc (Spatial_ctor example_mesh (22 / 10 ^ 17)) (gintfac example_mesh 0 0) 0 = 1 / 2"
    by simp
  from t m have "rcg (Spatial_ctor example_mesh (22 / 10 ^ 17)) 0 0
      + rc (Spatial_ctor example_mesh (22 / 10 ^ 17)) (gintfac example_mesh 0 0) 0 = 0"
    by simp
  with r have "rcg (Spatial_ctor example_mesh (22 / 10 ^ 17)) 0 0 = - (1 / 2)"
    by simp
  with a b r m show ?thesis
    by simp
qed

text \<open>The free-stream state of the example problem (\<open>\<gamma> = 7/5\<close>, \<open>M\<^sub>\<infinity> = 1/2\<close>, \<open>\<alpha> = 0\<close>)
  and the initial state of cell 1.\<close>

theorem freestream_state_and_initial_condition_witness:
  "example_fv = FlowFV_ctor example_mesh (22 / 10 ^ 17) example_physics 0
       (- 1) (- 1) (- 1) 2 4 1 0 1 0 1 0 example_flux example_jflux ''NONE''
       example_rec example_lim False
   \<and> uinf example_fv 0 0 = 1 \<and> uinf example_fv 0 1 = cos 0 \<and> uinf example_fv 0 2 = sin 0
   \<and> uinf example_fv 0 3 = 107 / 14
   \<and> initializeUnknowns example_fv False [] example_u 1 3 = uinf example_fv 0 3"
proof -
  have e: "example_fv = FlowFV_ctor example_mesh (22 / 10 ^ 17) example_physics 0
       (- 1) (- 1) (- 1) 2 4 1 0 1 0 1 0 example_flux example_jflux ''NONE''
       example_rec example_lim False"
    by (simp add: example_fv_def example_flow_def)
  note t = freestream_state_and_initial_condition [OF e, of "[]" example_u]
  have m: "(1::nat) < gnelem example_mesh \<and> (3::nat) < NVARS"
    by (simp add: example_mesh_def NVARS_def)
  have p: "1 / ((g example_physics - 1) * g example_physics * (Minf example_physics)\<^sup>2) + 1 / 2
             = (107 / 14 :: real)"
    by (simp add: example_physics_def power2_eq_square)
  from t m have "initializeUnknowns example_fv False [] example_u 1 3 = uinf example_fv 0 3"
    by blast
  with t p e show ?thesis
    by simp
qed

section \<open>The slip-wall ghost state\<close>

text \<open>C4, as amended. For a boundary face whose marker is the slip-wall id and an interior
  state of positive density, \<open>compute_boundary_state\<close> returns the state with the same
  density and total energy and with the momentum mirrored in the normal,
  \<open>(\<rho>, \<rho>v - 2 (\<rho>v \<cdot> n) n, \<rho>E)\<close>, provided the slip-wall id differs from the
  isothermal-wall id, the adiabatic-wall id, the inflow/outflow id and the characteristic
  id -1: the rule of each of those is applied after the slip-wall rule and overwrites it.\<close>

theorem slip_wall_ghost_state:
  assumes "ggallfa (mesh fv) ied 3 = of_int (slip_wall_id fv)"
    and "0 < ins 0"
    and "slip_wall_id fv \<noteq> isothermal_wall_id fv"
    and "slip_wall_id fv \<noteq> adiabatic_wall_id fv"
    and "slip_wall_id fv \<noteq> inflow_outflow_id fv"
    and "slip_wall_id fv \<noteq> characteristic_id"
  shows "slip_wall_ghost_spec (ggallfa (mesh fv) ied 0) (ggallfa (mesh fv) ied 1) ins
           (compute_boundary_state fv ied ins bs)"
  using assms
  by (simp add: compute_boundary_state_def slip_wall_ghost_spec_def Let_def)

theorem slip_wall_ghost_state_witness:
  "ggallfa (mesh example_fv) 1 3 = of_int (slip_wall_id example_fv)
   \<and> 0 < example_u 1 0
   \<and> slip_wall_id example_fv \<noteq> isothermal_wall_id example_fv
   \<and> slip_wall_id example_fv \<noteq> adiabatic_wall_id example_fv
   \<and> slip_wall_id example_fv \<noteq> inflow_outflow_id example_fv
   \<and> slip_wall_id example_fv \<noteq> characteristic_id
   \<and> compute_boundary_state example_fv 1 (example_u 1) uninitialised 0 = 2
   \<and> compute_boundary_state example_fv 1 (example_u 1) uninitialised 1 = - 1
   \<and> compute_boundary_state example_fv 1 (example_u 1) uninitialised 2 = 0
   \<and> compute_boundary_state example_fv 1 (example_u 1) uninitialised 3 = 5"
  using slip_wall_ghost_state [of example_fv 1 "example_u 1" uninitialised]
  by (simp add: example_fv_def characteristic_id_def slip_wall_ghost_spec_def)

text \<open>When the inflow/outflow id equals the slip-wall id, the ghost state of a face with that
  marker is the free stream, not the mirrored state.\<close>

theorem slip_wall_marker_collision:
  "ggallfa (mesh (example_flow example_mesh 2 2 example_jflux)) 1 3
     = of_int (slip_wall_id (example_flow example_mesh 2 2 example_jflux))
   \<and> 0 < example_u 1 0
   \<and> compute_boundary_state (example_flow example_mesh 2 2 example_jflux) 1 (example_u 1)
        uninitialised 1 = 1
   \<and> \<not> slip_wall_ghost_spec (ggallfa example_mesh 1 0) (ggallfa example_mesh 1 1) (example_u 1)
         (compute_boundary_state (example_flow example_mesh 2 2 example_jflux) 1 (example_u 1)
            uninitialised)"
  by (simp add: compute_boundary_state_def slip_wall_ghost_spec_def Let_def fold_NVARS
      characteristic_id_def)

section \<open>The flux loop of the residual\<close>

subsection \<open>Flux integrals, wave-speed integrals and the face invariants of the mesh\<close>

text \<open>The flux integral \<open>\<ell> F\<close> of a face, \<open>F = flux(u\<^sub>L\<^sup>f, u\<^sub>R\<^sup>f, n)\<close>, and what the loop
  body adds for that face to entry \<open>(i, ivar)\<close> of the residual.\<close>

definition face_flux_integral :: "FlowFV \<Rightarrow> Array2d \<Rightarrow> Array2d \<Rightarrow> nat \<Rightarrow> nat \<Rightarrow> real" where
  "face_flux_integral fv uleft uright ied ivar =
     ggallfa (mesh fv) ied 2
       * inviflux fv (uleft ied) (uright ied) (face_normal (mesh fv) ied) ivar"

definition face_contribution ::
  "FlowFV \<Rightarrow> Array2d \<Rightarrow> Array2d \<Rightarrow> nat \<Rightarrow> nat \<Rightarrow> nat \<Rightarrow> real" where
  "face_contribution fv uleft uright ied i ivar =
     (if i = gintfac (mesh fv) ied 0 \<and> ivar < NVARS
      then face_flux_integral fv uleft uright ied ivar else 0)
     - (if gintfac (mesh fv) ied 1 < gnelem (mesh fv) \<and> i = gintfac (mesh fv) ied 1 \<and> ivar < NVARS
        then face_flux_integral fv uleft uright ied ivar else 0)"

text \<open>The array \<^verbatim>\<open>integ\<close> after the first loop of \<^verbatim>\<open>compute_residual\<close> and after its flux
  loop: the wave-speed integral \<open>w\<close> of the cells.\<close>

definition zero_integ :: "nat \<Rightarrow> vec" where
  "zero_integ n = fold (\<lambda>iel w. w(iel := 0.0)) [0..<n] (uninitialised :: vec)"

definition wave_integral :: "FlowFV \<Rightarrow> MVector \<Rightarrow> vec" where
  "wave_integral fv u =
     snd (fold (flux_face fv (fst (face_states fv u)) (snd (face_states fv u)))
            [0..<gnaface (mesh fv)] (\<lambda>i j. 0, zero_integ (gnelem (mesh fv))))"

text \<open>Modelled from the spec (data model): boundary faces come first, the left cell of a
  face is an interior cell and the right cell of an interior face is an interior cell.
  Nothing is asked of the right cell of a boundary face: it is a ghost slot, or, for a
  periodic face, the interior cell that the mesh has linked to it.\<close>

definition mesh_faces_ok :: "UMesh2dh \<Rightarrow> bool" where
  "mesh_faces_ok msh \<longleftrightarrow>
     gnbface msh \<le> gnaface msh
     \<and> (\<forall>f<gnaface msh. gintfac msh f 0 < gnelem msh)
     \<and> (\<forall>f. gnbface msh \<le> f \<and> f < gnaface msh \<longrightarrow> gintfac msh f 1 < gnelem msh)"

text \<open>The example mesh with its boundary face 1 linked to cell 0, as the mesh links a
  periodic face to its neighbour.\<close>

definition periodic_mesh :: UMesh2dh where
  "periodic_mesh =
     example_mesh\<lparr>gintfac := (\<lambda>f k. [[0, 2, 3, 0], [1, 0, 2, 5], [0, 1, 1, 4]] ! f ! k)\<rparr>"

definition periodic_fv :: FlowFV where
  "periodic_fv = example_flow periodic_mesh 2 4 example_jflux"

text \<open>The example mesh with a third cell that no face touches.\<close>

definition isolated_mesh :: UMesh2dh where
  "isolated_mesh =
     example_mesh\<lparr>gnelem := 3,
       gintfac := (\<lambda>f k. [[0, 3, 3, 0], [1, 4, 2, 5], [0, 1, 1, 4]] ! f ! k)\<rparr>"


subsection \<open>The loop, face by face\<close>

lemma flux_face_residual:
  "fst (flux_face fv ul ur ied (r, w)) i j = r i j + face_contribution fv ul ur ied i j"
  by (auto simp: flux_face_def Let_def fold_NVARS assign2d_def less_NVARS
      face_contribution_def face_flux_integral_def)

lemma flux_face_integ:
  "snd (flux_face fv ul ur ied (r, w)) = snd (flux_face fv ul ur ied (r', w))"
  by (simp add: flux_face_def Let_def)

lemma flux_loop_residual:
  "fst (fold (flux_face fv ul ur) [0..<n] (r, w)) i j
     = r i j + (\<Sum>f<n. face_contribution fv ul ur f i j)"
proof (induction n)
  case 0
  show ?case by simp
next
  case (Suc n)
  obtain r' w' where s: "fold (flux_face fv ul ur) [0..<n] (r, w) = (r', w')"
    by (cases "fold (flux_face fv ul ur) [0..<n] (r, w)")
  with Suc.IH have "r' i j = r i j + (\<Sum>f<n. face_contribution fv ul ur f i j)"
    by simp
  then show ?case
    by (simp add: s flux_face_residual)
qed

lemma flux_loop_integ:
  "snd (fold (flux_face fv ul ur) [0..<n] (r, w)) = snd (fold (flux_face fv ul ur) [0..<n] (r', w))"
proof (induction n)
  case 0
  show ?case by simp
next
  case (Suc n)
  obtain r1 w1 where s1: "fold (flux_face fv ul ur) [0..<n] (r, w) = (r1, w1)"
    by (cases "fold (flux_face fv ul ur) [0..<n] (r, w)")
  obtain r2 w2 where s2: "fold (flux_face fv ul ur) [0..<n] (r', w) = (r2, w2)"
    by (cases "fold (flux_face fv ul ur) [0..<n] (r', w)")
  from Suc.IH s1 s2 have "w1 = w2" by simp
  then show ?case
    using flux_face_integ [of fv ul ur n r1 w2 r2] by (simp add: s1 s2)
qed

lemma time_step_loop:
  "fold (\<lambda>iel d. d(iel := h iel)) [0..<n] d = (\<lambda>iel. if iel < n then h iel else d iel)"
  by (induction n) (auto simp: fun_eq_iff)

lemma compute_residual_fst:
  "fst (compute_residual fv u r gts dtm) i j
     = r i j + (\<Sum>f<gnaface (mesh fv).
                  face_contribution fv (fst (face_states fv u)) (snd (face_states fv u)) f i j)"
  by (simp add: compute_residual_def Let_def split_beta flux_loop_residual)

lemma compute_residual_snd:
  "snd (compute_residual fv u r gts dtm)
     = (if gts then (\<lambda>iel. if iel < gnelem (mesh fv)
                             then ieee_div (garea (mesh fv) iel) (wave_integral fv u iel)
                             else dtm iel)
        else dtm)"
proof -
  have w: "snd (fold (flux_face fv (fst (face_states fv u)) (snd (face_states fv u)))
                  [0..<gnaface (mesh fv)] (r, zero_integ (gnelem (mesh fv))))
             = wave_integral fv u"
    unfolding wave_integral_def by (rule flux_loop_integ)
  have "snd (compute_residual fv u r gts dtm)
          = (if gts
             then fold (\<lambda>iel d. d(iel := ieee_div (garea (mesh fv) iel) (wave_integral fv u iel)))
                    [0..<gnelem (mesh fv)] dtm
             else dtm)"
    by (simp add: compute_residual_def Let_def split_beta w [unfolded zero_integ_def, simplified])
  then show ?thesis
    by (simp add: time_step_loop)
qed








subsection \<open>The residual of the example\<close>

lemma store_row_apply:
  "store_row a i w k j = (if k = i \<and> j < NVARS then w j else a k j)"
  by (auto simp: store_row_def fold_NVARS assign2d_def less_NVARS)

lemma upt_3: "[0..<3] = [0, 1, 2]" "[0..<2] = [0, 1]" "[2..<3] = [2]"
  by (simp_all add: upt_rec)

lemma ex_uleft:
  "fst (face_states example_fv example_u) 0 0 = 1"
  "fst (face_states example_fv example_u) 0 (Suc 0) = 1"
  "fst (face_states example_fv example_u) 0 2 = 0"
  "fst (face_states example_fv example_u) 0 3 = 3"
  "fst (face_states example_fv example_u) (Suc 0) 0 = 2"
  "fst (face_states example_fv example_u) (Suc 0) (Suc 0) = 1"
  "fst (face_states example_fv example_u) (Suc 0) 2 = 0"
  "fst (face_states example_fv example_u) (Suc 0) 3 = 5"
  "fst (face_states example_fv example_u) 2 0 = 1"
  "fst (face_states example_fv example_u) 2 (Suc 0) = 1"
  "fst (face_states example_fv example_u) 2 2 = 0"
  "fst (face_states example_fv example_u) 2 3 = 3"
  by (simp_all add: face_states_def Let_def example_fv_def upt_3 split_beta store_row_apply less_NVARS)

lemma ex_uright:
  "snd (face_states example_fv example_u) 0 0 = 1"
  "snd (face_states example_fv example_u) 0 (Suc 0) = 1"
  "snd (face_states example_fv example_u) 0 2 = 0"
  "snd (face_states example_fv example_u) 0 3 = 107 / 14"
  "snd (face_states example_fv example_u) (Suc 0) 0 = 2"
  "snd (face_states example_fv example_u) (Suc 0) (Suc 0) = - 1"
  "snd (face_states example_fv example_u) (Suc 0) 2 = 0"
  "snd (face_states example_fv example_u) (Suc 0) 3 = 5"
  "snd (face_states example_fv example_u) 2 0 = 2"
  "snd (face_states example_fv example_u) 2 (Suc 0) = 1"
  "snd (face_states example_fv example_u) 2 2 = 0"
  "snd (face_states example_fv example_u) 2 3 = 5"
  by (simp_all add: face_states_def Let_def example_fv_def upt_3 split_beta store_row_apply less_NVARS
     compute_boundary_states_def compute_boundary_state_def characteristic_id_def fold_NVARS)

lemma sum_lessThan_numeral:
  "(\<Sum>f<(2::nat). h f) = h 0 + h 1"
  "(\<Sum>f<(3::nat). h f) = h 0 + h 1 + h 2"
  by (simp_all add: eval_nat_numeral)

lemma example_fv_fields [simp]:
  "mesh example_fv = example_mesh"
  "physics example_fv = example_physics"
  "inviflux example_fv = example_flux"
  "jflux example_fv = example_jflux"
  by (simp_all add: example_fv_def)

lemma less_3_cases:
  "f < (3::nat) \<longleftrightarrow> f = 0 \<or> f = 1 \<or> f = 2"
  by auto

lemma less_2_cases:
  "f < (2::nat) \<longleftrightarrow> f = 0 \<or> f = 1"
  by auto

lemma example_mesh_faces_ok:
  "mesh_faces_ok example_mesh"
  unfolding mesh_faces_ok_def
  by (auto simp: less_3_cases less_2_cases)

lemma ex_flux_integral:
  "face_flux_integral example_fv (fst (face_states example_fv example_u))
     (snd (face_states example_fv example_u)) 0 0 = 1"
  "face_flux_integral example_fv (fst (face_states example_fv example_u))
     (snd (face_states example_fv example_u)) (Suc 0) 0 = 2"
  "face_flux_integral example_fv (fst (face_states example_fv example_u))
     (snd (face_states example_fv example_u)) 2 0 = 3 / 2"
  by (simp_all add: face_flux_integral_def ex_uleft ex_uright example_flux_def)

lemma ex_residual_0_0:
  "fst (compute_residual example_fv example_u r False d) 0 0 = r 0 0 + 5 / 2"
  by (simp add: compute_residual_fst sum_lessThan_numeral face_contribution_def
      ex_flux_integral less_NVARS)


lemma periodic_mesh_simps [simp]:
  "gnelem periodic_mesh = 2" "gnbface periodic_mesh = 2" "gnaface periodic_mesh = 3"
  "gintfac periodic_mesh 0 0 = 0" "gintfac periodic_mesh 0 (Suc 0) = 2"
  "gintfac periodic_mesh (Suc 0) 0 = 1" "gintfac periodic_mesh (Suc 0) (Suc 0) = 0"
  "gintfac periodic_mesh 2 0 = 0" "gintfac periodic_mesh 2 (Suc 0) = 1"
  "ggallfa periodic_mesh f k = ggallfa example_mesh f k"
  by (simp_all add: periodic_mesh_def)

lemma periodic_fv_fields [simp]:
  "mesh periodic_fv = periodic_mesh"
  "physics periodic_fv = example_physics"
  "inviflux periodic_fv = example_flux"
  by (simp_all add: periodic_fv_def)





lemma isolated_mesh_simps [simp]:
  "gnelem isolated_mesh = 3" "gnaface isolated_mesh = 3" "garea isolated_mesh e = 1"
  by (simp_all add: isolated_mesh_def)


section \<open>The time steps\<close>

text \<open>C10. With \<open>gettimesteps = false\<close>, \<open>compute_residual\<close> returns the time-step array
  \<open>dtm\<close> exactly as it received it, whatever the state \<open>u\<close> and the residual array are.\<close>

theorem timesteps_untouched:
  "snd (compute_residual fv u residual False dtm) = dtm"
  by (simp add: compute_residual_snd)

theorem timesteps_untouched_witness:
  "snd (compute_residual example_fv example_u (\<lambda>i ivar. 0) False (\<lambda>iel. Finite 1))
     = (\<lambda>iel. Finite 1)"
  using timesteps_untouched [of example_fv example_u "\<lambda>i ivar. 0" "\<lambda>iel. Finite 1"]
  by simp




section \<open>Accumulation and conservation\<close>

text \<open>C5, as amended. \<open>compute_residual\<close> sets to zero the wave-speed integral only. It
  does not set the residual array to zero: the flux of every face is added to what the
  array holds on entry, so that the residual returned is the residual on entry plus the
  residual returned from a zero array; the output is independent of the prior contents
  only in that the caller passes a zero array. The time steps returned do not depend on
  the residual array.\<close>

theorem residual_accumulates:
  "fst (compute_residual fv u residual gettimesteps dtm) i ivar
     = residual i ivar + fst (compute_residual fv u (\<lambda>i ivar. 0) gettimesteps dtm) i ivar
   \<and> snd (compute_residual fv u residual gettimesteps dtm)
     = snd (compute_residual fv u (\<lambda>i ivar. 0) gettimesteps dtm)"
  by (simp add: compute_residual_fst compute_residual_snd)

theorem residual_accumulates_witness:
  "fst (compute_residual example_fv example_u (\<lambda>i ivar. 1) False uninitialised) 0 0
     = 1 + fst (compute_residual example_fv example_u (\<lambda>i ivar. 0) False uninitialised) 0 0
   \<and> fst (compute_residual example_fv example_u (\<lambda>i ivar. 0) False uninitialised) 0 0 = 5 / 2"
  using residual_accumulates [of example_fv example_u "\<lambda>i ivar. 1" False uninitialised 0 0]
  by (simp add: ex_residual_0_0)

text \<open>On the example, entry \<open>(0, 0)\<close> of the residual returned is 5/2 from a zero array and
  7/2 from an array of ones.\<close>

theorem residual_depends_on_prior_contents:
  "fst (compute_residual example_fv example_u (\<lambda>i ivar. 0) False uninitialised) 0 0 = 5 / 2
   \<and> fst (compute_residual example_fv example_u (\<lambda>i ivar. 1) False uninitialised) 0 0 = 7 / 2"
  by (simp add: ex_residual_0_0)




section \<open>The Jacobian assembly, face by face\<close>

text \<open>The calls that the spec asks for at an interior face between the cells \<open>L\<close> and
  \<open>R\<close>, in the spec's words: the block \<open>A[R,L] = - \<ell> \<partial>F/\<partial>u\<^sub>L\<close> with tag 1 (lower) and
  the block \<open>A[L,R] = + \<ell> \<partial>F/\<partial>u\<^sub>R\<close> with tag 2 (upper), both with the index of the
  interior face, when the type of the operator is \<open>d\<close>, and both with \<open>NVARS\<close>, \<open>NVARS\<close>
  otherwise; then the negative of the first block to the diagonal block of \<open>L\<close> and the
  negative of the second to the diagonal block of \<open>R\<close>.\<close>

definition interior_face_calls_spec ::
  "char \<Rightarrow> nat \<Rightarrow> nat \<Rightarrow> nat \<Rightarrow> real \<Rightarrow> Array2d \<Rightarrow> Array2d \<Rightarrow> operator_call list" where
  "interior_face_calls_spec ty intface L R len dFdL dFdR =
     [SubmitBlock (R * NVARS) (L * NVARS) (\<lambda>i j. - (len * dFdL i j))
        (if ty = CHR ''d'' then 1 else NVARS) (if ty = CHR ''d'' then intface else NVARS),
      SubmitBlock (L * NVARS) (R * NVARS) (\<lambda>i j. len * dFdR i j)
        (if ty = CHR ''d'' then 2 else NVARS) (if ty = CHR ''d'' then intface else NVARS),
      UpdateDiagBlock (L * NVARS) (\<lambda>i j. - (- (len * dFdL i j))) NVARS,
      UpdateDiagBlock (R * NVARS) (\<lambda>i j. - (len * dFdR i j)) NVARS]"

text \<open>Modelled from the spec: the flux classes, whose \<^verbatim>\<open>get_jacobian\<close> is called here,
  are not part of the sources at hand. The documentation of \<^verbatim>\<open>compute_jacobian\<close> in
  aspatial.cpp fixes what \<^verbatim>\<open>get_jacobian\<close> stores for the flux \<open>F\<close>: the lower block
  \<open>L = - \<partial>F/\<partial>u\<^sub>L\<close> and the upper block \<open>U = \<partial>F/\<partial>u\<^sub>R\<close>.\<close>

definition get_jacobian_of ::
  "(vec \<Rightarrow> vec \<Rightarrow> vec \<Rightarrow> Array2d) \<Rightarrow> (vec \<Rightarrow> vec \<Rightarrow> vec \<Rightarrow> Array2d) \<Rightarrow> get_jacobian_t" where
  "get_jacobian_of dFdL dFdR = (\<lambda>ul ur n. (\<lambda>i j. - dFdL ul ur n i j, dFdR ul ur n))"

definition example_operator :: LinearOperator where
  "example_operator = \<lparr>op_type = CHR ''d'', op_calls = []\<rparr>"

definition left_only_jflux :: get_jacobian_t where
  "left_only_jflux ul ur n = (fst (example_jflux ul ur n), \<lambda>i j. 0)"

lemma boundary_face_type [simp]:
  "op_type (jacobian_boundary_face fv u iface A) = op_type A"
  by (simp add: jacobian_boundary_face_def Let_def split_beta updateDiagBlock_def)

lemma interior_face_type [simp]:
  "op_type (jacobian_interior_face fv u iface A) = op_type A"
  by (simp add: jacobian_interior_face_def Let_def split_beta updateDiagBlock_def submitBlock_def)

lemma boundary_loop_type [simp]:
  "op_type (fold (jacobian_boundary_face fv u) fs A) = op_type A"
  by (induction fs arbitrary: A) simp_all

lemma interior_loop_type [simp]:
  "op_type (fold (jacobian_interior_face fv u) fs A) = op_type A"
  by (induction fs arbitrary: A) simp_all

lemma boundary_face_calls:
  "op_calls (jacobian_boundary_face fv u iface A)
     = op_calls A @
       [UpdateDiagBlock (gintfac (mesh fv) iface 0 * NVARS)
          (\<lambda>i j. - (ggallfa (mesh fv) iface 2
                       * fst (jflux fv (u (gintfac (mesh fv) iface 0))
                                (compute_boundary_state fv iface (u (gintfac (mesh fv) iface 0))
                                   uninitialised)
                                (face_normal (mesh fv) iface)) i j))
          NVARS]"
  by (simp add: jacobian_boundary_face_def Let_def split_beta updateDiagBlock_def scale_block_def)

lemma interior_face_calls:
  assumes "jflux fv = get_jacobian_of dFdL dFdR"
  shows "op_calls (jacobian_interior_face fv u iface A)
     = op_calls A @
       interior_face_calls_spec (op_type A) (iface - gnbface (mesh fv))
         (gintfac (mesh fv) iface 0) (gintfac (mesh fv) iface 1) (ggallfa (mesh fv) iface 2)
         (dFdL (u (gintfac (mesh fv) iface 0)) (u (gintfac (mesh fv) iface 1))
            (face_normal (mesh fv) iface))
         (dFdR (u (gintfac (mesh fv) iface 0)) (u (gintfac (mesh fv) iface 1))
            (face_normal (mesh fv) iface))"
  by (simp add: jacobian_interior_face_def Let_def split_beta updateDiagBlock_def submitBlock_def
      scale_block_def assms get_jacobian_of_def interior_face_calls_spec_def)

lemma loop_calls:
  assumes "\<And>f A. op_calls (step f A) = op_calls A @ cs (op_type A) f"
    and "\<And>f A. op_type (step f A) = op_type A"
  shows "op_calls (fold step fs A) = op_calls A @ concat (map (cs (op_type A)) fs)
         \<and> op_type (fold step fs A) = op_type A"
  by (induction fs arbitrary: A) (simp_all add: assms)

lemma example_jflux_convention:
  "example_jflux = get_jacobian_of (\<lambda>ul ur n i j. if i = j then 1 / 2 else 0)
                     (\<lambda>ul ur n i j. if i = j then 1 / 2 else 0)"
  by (simp add: example_jflux_def get_jacobian_of_def fun_eq_iff)

lemma example_slip_ghost:
  "compute_boundary_state (example_flow example_mesh 2 4 jf) (Suc 0) (example_u (Suc 0)) bs
     = bs(0 := 2, 1 := - 1, 2 := 0, 3 := 5)"
  by (simp add: compute_boundary_state_def Let_def characteristic_id_def)

text \<open>C2. Let \<^verbatim>\<open>get_jacobian\<close> store \<open>- \<partial>F/\<partial>u\<^sub>L\<close> and \<open>\<partial>F/\<partial>u\<^sub>R\<close>, as documented. For
  every interior face between the cells \<open>L\<close> and \<open>R\<close>, \<open>compute_jacobian\<close> submits the
  off-diagonal blocks \<open>A[R,L] = - \<ell> \<partial>F/\<partial>u\<^sub>L\<close> and \<open>A[L,R] = + \<ell> \<partial>F/\<partial>u\<^sub>R\<close>, with the tags
  1 and 2 and the index of the interior face when the type of the operator is \<open>d\<close>
  and with \<open>NVARS\<close>, \<open>NVARS\<close> otherwise, and updates the diagonal blocks of \<open>L\<close> and \<open>R\<close>
  with the negatives of those two blocks; these are all the calls of the loop over the
  interior faces.\<close>

theorem interior_face_blocks:
  assumes "jflux fv = get_jacobian_of dFdL dFdR"
  shows "(\<forall>iface. gnbface (mesh fv) \<le> iface \<and> iface < gnaface (mesh fv) \<longrightarrow>
            op_calls (jacobian_interior_face fv u iface A)
              = op_calls A @
                interior_face_calls_spec (op_type A) (iface - gnbface (mesh fv))
                  (gintfac (mesh fv) iface 0) (gintfac (mesh fv) iface 1)
                  (ggallfa (mesh fv) iface 2)
                  (dFdL (u (gintfac (mesh fv) iface 0)) (u (gintfac (mesh fv) iface 1))
                     (face_normal (mesh fv) iface))
                  (dFdR (u (gintfac (mesh fv) iface 0)) (u (gintfac (mesh fv) iface 1))
                     (face_normal (mesh fv) iface)))
       \<and> op_calls (compute_jacobian fv u A)
           = op_calls (fold (jacobian_boundary_face fv u) [0..<gnbface (mesh fv)] A) @
             concat (map (\<lambda>iface.
                 interior_face_calls_spec (op_type A) (iface - gnbface (mesh fv))
                   (gintfac (mesh fv) iface 0) (gintfac (mesh fv) iface 1)
                   (ggallfa (mesh fv) iface 2)
                   (dFdL (u (gintfac (mesh fv) iface 0)) (u (gintfac (mesh fv) iface 1))
                      (face_normal (mesh fv) iface))
                   (dFdR (u (gintfac (mesh fv) iface 0)) (u (gintfac (mesh fv) iface 1))
                      (face_normal (mesh fv) iface)))
               [gnbface (mesh fv)..<gnaface (mesh fv)])"
proof -
  let ?cs = "\<lambda>ty iface. interior_face_calls_spec ty (iface - gnbface (mesh fv))
                   (gintfac (mesh fv) iface 0) (gintfac (mesh fv) iface 1)
                   (ggallfa (mesh fv) iface 2)
                   (dFdL (u (gintfac (mesh fv) iface 0)) (u (gintfac (mesh fv) iface 1))
                      (face_normal (mesh fv) iface))
                   (dFdR (u (gintfac (mesh fv) iface 0)) (u (gintfac (mesh fv) iface 1))
                      (face_normal (mesh fv) iface))"
  have step: "op_calls (jacobian_interior_face fv u f B) = op_calls B @ ?cs (op_type B) f" for f B
    by (rule interior_face_calls [OF assms])
  have "op_calls (fold (jacobian_interior_face fv u) fs B)
          = op_calls B @ concat (map (?cs (op_type B)) fs)" for fs B
    using loop_calls [of "jacobian_interior_face fv u" ?cs fs B] step by simp
  then show ?thesis
    using step by (simp add: compute_jacobian_def)
qed

theorem interior_face_blocks_witness:
  "jflux example_fv = get_jacobian_of (\<lambda>ul ur n i j. if i = j then 1 / 2 else 0)
                        (\<lambda>ul ur n i j. if i = j then 1 / 2 else 0)
   \<and> gnbface (mesh example_fv) \<le> 2 \<and> 2 < gnaface (mesh example_fv)
   \<and> op_calls (jacobian_interior_face example_fv example_u 2 example_operator)
       = [SubmitBlock 4 0 (\<lambda>i j. - (1 * (if i = j then 1 / 2 else 0))) 1 0,
          SubmitBlock 0 4 (\<lambda>i j. 1 * (if i = j then 1 / 2 else 0)) 2 0,
          UpdateDiagBlock 0 (\<lambda>i j. - (- (1 * (if i = j then 1 / 2 else 0)))) 4,
          UpdateDiagBlock 4 (\<lambda>i j. - (1 * (if i = j then 1 / 2 else 0))) 4]"
proof -
  have c: "jflux example_fv = get_jacobian_of (\<lambda>ul ur n i j. if i = j then 1 / 2 else 0)
                        (\<lambda>ul ur n i j. if i = j then 1 / 2 else 0)"
    by (simp add: example_jflux_convention)
  have f: "gnbface (mesh example_fv) \<le> 2 \<and> 2 < gnaface (mesh example_fv)"
    by simp
  note t = interior_face_blocks [OF c, of example_u example_operator]
  from t f have "op_calls (jacobian_interior_face example_fv example_u 2 example_operator)
       = op_calls example_operator @
         interior_face_calls_spec (op_type example_operator) (2 - gnbface (mesh example_fv))
           (gintfac (mesh example_fv) 2 0) (gintfac (mesh example_fv) 2 1)
           (ggallfa (mesh example_fv) 2 2)
           (\<lambda>i j. if i = j then 1 / 2 else 0) (\<lambda>i j. if i = j then 1 / 2 else 0)"
    by blast
  with c f show ?thesis
    by (simp add: interior_face_calls_spec_def example_operator_def NVARS_def)
qed

text \<open>C3, as amended. For every boundary face the ghost state \<open>u\<^sub>g = B(u\<^sub>L, f)\<close> is
  computed and the Jacobian flux is evaluated at \<open>(u\<^sub>L, u\<^sub>g)\<close>; the one call made for the
  face updates the diagonal block of \<open>L\<close> with \<open>- \<ell>\<close> times the left block that
  \<^verbatim>\<open>get_jacobian\<close> stored. The right block is computed and not used, so the dependence
  of the ghost state on \<open>u\<^sub>L\<close> enters through the point of evaluation only. No
  off-diagonal block is submitted in the loop over the boundary faces.\<close>

theorem boundary_face_diagonal_only:
  "op_calls (jacobian_boundary_face fv u iface A)
     = op_calls A @
       [UpdateDiagBlock (gintfac (mesh fv) iface 0 * NVARS)
          (\<lambda>i j. - (ggallfa (mesh fv) iface 2
                       * fst (jflux fv (u (gintfac (mesh fv) iface 0))
                                (compute_boundary_state fv iface (u (gintfac (mesh fv) iface 0))
                                   uninitialised)
                                (face_normal (mesh fv) iface)) i j))
          NVARS]
   \<and> op_calls (fold (jacobian_boundary_face fv u) [0..<gnbface (mesh fv)] A)
     = op_calls A @
       map (\<lambda>iface. UpdateDiagBlock (gintfac (mesh fv) iface 0 * NVARS)
          (\<lambda>i j. - (ggallfa (mesh fv) iface 2
                       * fst (jflux fv (u (gintfac (mesh fv) iface 0))
                                (compute_boundary_state fv iface (u (gintfac (mesh fv) iface 0))
                                   uninitialised)
                                (face_normal (mesh fv) iface)) i j))
          NVARS) [0..<gnbface (mesh fv)]
   \<and> jacobian_boundary_face (fv\<lparr>jflux := \<lambda>ul ur n. (fst (jflux fv ul ur n), right ul ur n)\<rparr>)
        u iface A
     = jacobian_boundary_face fv u iface A"
proof -
  let ?c = "\<lambda>ty :: char. \<lambda>iface. [UpdateDiagBlock (gintfac (mesh fv) iface 0 * NVARS)
          (\<lambda>i j. - (ggallfa (mesh fv) iface 2
                       * fst (jflux fv (u (gintfac (mesh fv) iface 0))
                                (compute_boundary_state fv iface (u (gintfac (mesh fv) iface 0))
                                   uninitialised)
                                (face_normal (mesh fv) iface)) i j))
          NVARS]"
  have "op_calls (fold (jacobian_boundary_face fv u) fs A)
          = op_calls A @ concat (map (?c (op_type A)) fs)" for fs
    using loop_calls [of "jacobian_boundary_face fv u" ?c fs A]
    by (simp add: boundary_face_calls)
  moreover have "concat (map (\<lambda>x. [h x]) fs) = map h fs" for h :: "nat \<Rightarrow> operator_call" and fs
    by (induction fs) simp_all
  moreover have "compute_boundary_state
                   (fv\<lparr>jflux := \<lambda>ul ur n. (fst (jflux fv ul ur n), right ul ur n)\<rparr>)
                 = compute_boundary_state fv"
    by (simp add: fun_eq_iff compute_boundary_state_def Let_def)
  ultimately show ?thesis
    by (simp add: boundary_face_calls)
qed

theorem boundary_face_diagonal_only_witness:
  "op_calls (jacobian_boundary_face example_fv example_u 1 example_operator)
     = [UpdateDiagBlock 4 (\<lambda>i j. - (1 * (if i = j then - (1 / 2) else 0))) 4]"
  using boundary_face_diagonal_only [of example_fv example_u 1 example_operator]
  by (simp add: example_operator_def NVARS_def example_jflux_def)

text \<open>At the slip-wall face 1 of the example the ghost momentum is the mirrored
  interior momentum, and the right block of the Jacobian flux is not zero; replacing
  that right block by zero leaves the operator after the face as it was.\<close>

theorem boundary_block_ignores_right_jacobian:
  "compute_boundary_state example_fv 1 (example_u 1) uninitialised 1 = - example_u 1 1
   \<and> snd (example_jflux (example_u 1)
            (compute_boundary_state example_fv 1 (example_u 1) uninitialised)
            (face_normal example_mesh 1)) 0 0 = 1 / 2
   \<and> snd (left_only_jflux (example_u 1)
            (compute_boundary_state example_fv 1 (example_u 1) uninitialised)
            (face_normal example_mesh 1)) 0 0 = 0
   \<and> jacobian_boundary_face (example_flow example_mesh 2 4 left_only_jflux) example_u 1
        example_operator
     = jacobian_boundary_face example_fv example_u 1 example_operator"
  by (simp add: example_fv_def example_slip_ghost example_jflux_def left_only_jflux_def
      jacobian_boundary_face_def Let_def split_beta)

section \<open>The matrix-free product\<close>

text \<open>The state that \<^verbatim>\<open>compute_jac_vec\<close> stores in \<open>aux\<close>, and the Euclidean norm of \<open>v\<close>
  over the variables of the cells.\<close>

definition perturbed_state :: "FlowFV \<Rightarrow> MVector \<Rightarrow> MVector \<Rightarrow> MVector \<Rightarrow> MVector" where
  "perturbed_state fv u v aux =
     (\<lambda>i ivar. if i < gnelem (mesh fv) \<and> ivar < NVARS
               then u i ivar + eps fv / sqrt (dot (gnelem (mesh fv) * NVARS) v v) * v i ivar
               else aux i ivar)"

definition vnorm :: "UMesh2dh \<Rightarrow> MVector \<Rightarrow> real" where
  "vnorm msh v = sqrt (\<Sum>k<gnelem msh. \<Sum>j<NVARS. (v k j)\<^sup>2)"

definition unit_v :: MVector where
  "unit_v = (\<lambda>i ivar. if i = 0 \<and> ivar = 0 then 1 else 0)"

lemma NVARS_pos [simp]: "0 < NVARS"
  by (simp add: NVARS_def)

lemma flat_index:
  "j < NVARS \<Longrightarrow> flat a (k * NVARS + j) = a k j"
  by (simp add: flat_def)

lemma flat_loop:
  "fold (\<lambda>i p. flat_assign p i (F i (flat p i))) [0..<n] p k j
     = (if j < NVARS \<and> k * NVARS + j < n then F (k * NVARS + j) (p k j) else p k j)"
proof (induction n)
  case 0
  show ?case by simp
next
  case (Suc n)
  have hit: "(k = n div NVARS \<and> j = n mod NVARS) \<longleftrightarrow> (j < NVARS \<and> k * NVARS + j = n)"
    by (auto simp: NVARS_def)
  show ?case
  proof (cases "k = n div NVARS \<and> j = n mod NVARS")
    case True
    with hit have "j < NVARS" "k * NVARS + j = n" by simp_all
    then show ?thesis
      using Suc.IH True by (simp add: flat_assign_def assign2d_def flat_def)
  next
    case False
    with hit have "\<not> (j < NVARS \<and> k * NVARS + j = n)" by simp
    then show ?thesis
      using Suc.IH False by (auto simp: flat_assign_def assign2d_def less_Suc_eq)
  qed
qed

lemma flat_range:
  "j < NVARS \<Longrightarrow> k * NVARS + j < n * NVARS \<longleftrightarrow> k < n"
  by (auto simp: NVARS_def)

lemma axpbypcz_apply:
  "axpbypcz (n * NVARS) p z q x r y k j
     = (if k < n \<and> j < NVARS then p * z k j + q * x k j + r * y k j else z k j)"
  unfolding axpbypcz_def
  using flat_loop [of "\<lambda>i old. p * old + q * flat x i + r * flat y i" "n * NVARS" z k j]
  by (auto simp: flat_index flat_range)

lemma time_term_row:
  "fold (\<lambda>ivar p. assign2d p iel ivar (p iel ivar + c ivar)) [0..<NVARS] p k j
     = (if k = iel \<and> j < NVARS then p k j + c j else p k j)"
  by (auto simp: fold_NVARS assign2d_def less_NVARS)

lemma time_term_rows:
  "fold (\<lambda>iel p. fold (\<lambda>ivar p. assign2d p iel ivar (p iel ivar + c iel ivar)) [0..<NVARS] p)
     [0..<n] p k j
     = (if k < n \<and> j < NVARS then p k j + c k j else p k j)"
  by (induction n) (auto simp: time_term_row less_Suc_eq)

lemma compute_jac_vec_aux:
  "fst (compute_jac_vec fv resu u v atd dtm aux prd) = perturbed_state fv u v aux"
  by (simp add: compute_jac_vec_def Let_def split_beta perturbed_state_def axpbypcz_apply fun_eq_iff)

lemma compute_jac_vec_prod:
  "snd (compute_jac_vec fv resu u v atd dtm aux prd) i ivar
     = (if i < gnelem (mesh fv) \<and> ivar < NVARS
        then (fst (compute_residual fv (perturbed_state fv u v aux) prd False uninitialised) i ivar
                - resu i ivar)
             / (eps fv / sqrt (dot (gnelem (mesh fv) * NVARS) v v))
             + (if atd then garea (mesh fv) i / dtm i * v i ivar else 0)
        else fst (compute_residual fv (perturbed_state fv u v aux) prd False uninitialised) i ivar)"
proof -
  define h where "h = eps fv / sqrt (dot (gnelem (mesh fv) * NVARS) v v)"
  define R where "R = fst (compute_residual fv (perturbed_state fv u v aux) prd False uninitialised)"
  define Q where "Q = fold (\<lambda>i p. flat_assign p i ((flat p i - flat resu i) / h))
                        [0..<gnelem (mesh fv) * NVARS] R"
  have aux: "axpbypcz (gnelem (mesh fv) * NVARS) 0 aux 1 u h v = perturbed_state fv u v aux"
    by (simp add: perturbed_state_def axpbypcz_apply fun_eq_iff h_def)
  have q: "Q k j = (if k < gnelem (mesh fv) \<and> j < NVARS then (R k j - resu k j) / h else R k j)"
    for k j
    unfolding Q_def
    using flat_loop [of "\<lambda>i old. (old - flat resu i) / h" "gnelem (mesh fv) * NVARS" R k j]
    by (auto simp: flat_index flat_range)
  have "snd (compute_jac_vec fv resu u v atd dtm aux prd)
          = (if atd
             then fold (\<lambda>iel p. fold (\<lambda>ivar p. assign2d p iel ivar
                            (p iel ivar + garea (mesh fv) iel / dtm iel * v iel ivar))
                          [0..<NVARS] p)
                    [0..<gnelem (mesh fv)] Q
             else Q)"
    unfolding compute_jac_vec_def Let_def split_beta Q_def R_def h_def aux [unfolded h_def, symmetric]
    by simp
  then show ?thesis
    by (simp add: time_term_rows q) (simp add: R_def h_def)
qed

lemma dot_sum:
  "dot n a b = (\<Sum>i<n. flat a i * flat b i)"
proof -
  have "fold (\<lambda>i s. s + flat a i * flat b i) [0..<n] s0 = s0 + (\<Sum>i<n. flat a i * flat b i)"
    for s0
    by (induction n) simp_all
  then show ?thesis
    by (simp add: dot_def)
qed

lemma sum_rows:
  "(\<Sum>i<n * NVARS. f i) = (\<Sum>k<n. \<Sum>j<NVARS. (f (k * NVARS + j) :: real))"
proof (induction n)
  case 0
  show ?case by simp
next
  case (Suc n)
  have "(\<Sum>i<Suc n * NVARS. f i) = (\<Sum>i<n * NVARS. f i) + (\<Sum>j<NVARS. f (n * NVARS + j))"
    by (simp add: NVARS_def eval_nat_numeral)
  with Suc.IH show ?case by simp
qed

lemma dot_cells:
  "dot (n * NVARS) a b = (\<Sum>k<n. \<Sum>j<NVARS. a k j * b k j)"
  by (simp add: dot_sum sum_rows flat_index)

lemma perturbed_state_vnorm:
  "perturbed_state fv u v aux =
     (\<lambda>i ivar. if i < gnelem (mesh fv) \<and> ivar < NVARS
               then u i ivar + eps fv / vnorm (mesh fv) v * v i ivar
               else aux i ivar)"
  unfolding perturbed_state_def vnorm_def dot_cells power2_eq_square ..

lemma FlowFV_ctor_eps:
  "eps (FlowFV_ctor msh ZERO_TOL phys a i1 i2 i3 i4 i5 t1 t2 t3 t4 t5 t6 fl jf rs ro lo rp)
     = sqrt ZERO_TOL / 10"
  by (simp add: FlowFV_ctor_def Let_def Spatial.defs FlowFV.defs)

lemma ex_states_gen:
  "fst (face_states example_fv w) 0 0 = w 0 0"
  "snd (face_states example_fv w) 0 0 = 1"
  "fst (face_states example_fv w) 2 0 = w 0 0"
  "snd (face_states example_fv w) 2 0 = w (Suc 0) 0"
  by (simp_all add: face_states_def Let_def example_fv_def upt_3 split_beta store_row_apply less_NVARS
     compute_boundary_states_def compute_boundary_state_def characteristic_id_def fold_NVARS)

lemma ex_residual_gen:
  "fst (compute_residual example_fv w r False d) 0 0
     = r 0 0 + (w 0 0 + 1) / 2 + (w 0 0 + w 1 0) / 2"
  by (simp add: compute_residual_fst sum_lessThan_numeral face_contribution_def
      face_flux_integral_def ex_states_gen example_flux_def less_NVARS)

lemma sum_lessThan_NVARS:
  "(\<Sum>j<NVARS. h j) = h 0 + h 1 + h 2 + h 3"
  by (simp add: NVARS_def eval_nat_numeral)

lemma ex_vnorm: "vnorm example_mesh unit_v = 1"
  by (simp add: vnorm_def sum_lessThan_numeral sum_lessThan_NVARS unit_v_def)

lemma ex_eps: "eps example_fv = sqrt (22 / 10 ^ 17) / 10"
  by (simp add: example_fv_def)

text \<open>What \<open>compute_jac_vec\<close> returns when the array \<^verbatim>\<open>prod\<close> holds zero on entry: with
  \<open>\<epsilon> = sqrt ZERO_TOL / 10\<close> from the constructor, \<open>\<parallel>v\<parallel> \<noteq> 0\<close>, \<open>h = \<epsilon> / \<parallel>v\<parallel>\<close>, \<open>R\<close> the residual
  computed from a zero array and \<open>resu = R(u)\<close>, it stores the perturbed state \<open>u + h v\<close>
  in \<open>aux\<close> and returns, for every variable of every cell, the quotient
  \<open>(R(u + \<epsilon> v / \<parallel>v\<parallel>) - R(u)) / (\<epsilon> / \<parallel>v\<parallel>)\<close>, to which \<open>A\<^sub>i / \<Delta>t\<^sub>i \<cdot> v\<^sub>i\<close> is added when
  \<open>add_time_deriv\<close> is set.\<close>

lemma jac_vec_from_zero_product:
  assumes "i < gnelem (mesh fv)" and "ivar < NVARS"
    and "vnorm (mesh fv) v \<noteq> 0"
    and "add_time_deriv \<longrightarrow> dtm i \<noteq> 0"
    and "h = eps fv / vnorm (mesh fv) v"
    and "pert = (\<lambda>k j. if k < gnelem (mesh fv) \<and> j < NVARS then u k j + h * v k j else aux k j)"
    and "prd i ivar = 0"
    and "resu i ivar = fst (compute_residual fv u (\<lambda>k j. 0) False uninitialised) i ivar"
  shows "fst (compute_jac_vec fv resu u v add_time_deriv dtm aux prd) = pert
       \<and> snd (compute_jac_vec fv resu u v add_time_deriv dtm aux prd) i ivar
           = (fst (compute_residual fv pert (\<lambda>k j. 0) False uninitialised) i ivar
                - fst (compute_residual fv u (\<lambda>k j. 0) False uninitialised) i ivar) / h
             + (if add_time_deriv then garea (mesh fv) i / dtm i * v i ivar else 0)
       \<and> eps (FlowFV_ctor msh ZERO_TOL phys a i1 i2 i3 i4 i5 t1 t2 t3 t4 t5 t6 fl jf rs ro lo rp)
           = sqrt ZERO_TOL / 10"
proof -
  have p: "perturbed_state fv u v aux = pert"
    unfolding perturbed_state_vnorm assms(5,6) ..
  have hh: "eps fv / sqrt (dot (gnelem (mesh fv) * NVARS) v v) = h"
    by (simp add: assms(5) vnorm_def dot_cells power2_eq_square)
  have "snd (compute_jac_vec fv resu u v add_time_deriv dtm aux prd) i ivar
           = (fst (compute_residual fv pert prd False uninitialised) i ivar - resu i ivar) / h
             + (if add_time_deriv then garea (mesh fv) i / dtm i * v i ivar else 0)"
    using assms(1,2) unfolding compute_jac_vec_prod p hh by simp
  moreover have "fst (compute_residual fv pert prd False uninitialised) i ivar
                   = fst (compute_residual fv pert (\<lambda>k j. 0) False uninitialised) i ivar"
    by (simp add: compute_residual_fst assms(7))
  ultimately show ?thesis
    by (simp add: compute_jac_vec_aux p assms(8) FlowFV_ctor_eps)
qed

text \<open>C9. On the example, with \<open>v\<close> the unit vector of variable 0 of cell 0, \<open>resu\<close> the
  residual at \<open>u\<close>, \<open>add_time_deriv\<close> set and all time steps 1: the quotient
  \<open>(R(u + \<epsilon> v / \<parallel>v\<parallel>) - R(u)) / (\<epsilon> / \<parallel>v\<parallel>)\<close> plus the time term \<open>A\<^sub>0 / \<Delta>t\<^sub>0 \<cdot> v\<^sub>0\<close> is 2 at entry
  \<open>(0, 0)\<close>, and 2 is what \<open>compute_jac_vec\<close> returns there when \<^verbatim>\<open>prod\<close> holds zero on entry;
  when \<^verbatim>\<open>prod\<close> holds ones on entry it returns \<open>2 + 10 / sqrt (22 / 10\<^sup>1\<^sup>7)\<close>, because the
  array is handed to \<open>compute_residual\<close>, which adds to it, without being cleared.\<close>

theorem jac_vec_adds_to_prior_product:
  "snd (compute_jac_vec example_fv
          (fst (compute_residual example_fv example_u (\<lambda>k j. 0) False uninitialised))
          example_u unit_v True (\<lambda>iel. 1) uninitialised (\<lambda>k j. 1)) 0 0
       = 2 + 10 / sqrt (22 / 10 ^ 17)
   \<and> (fst (compute_residual example_fv
             (perturbed_state example_fv example_u unit_v uninitialised)
             (\<lambda>k j. 0) False uninitialised) 0 0
        - fst (compute_residual example_fv example_u (\<lambda>k j. 0) False uninitialised) 0 0)
       / (eps example_fv / vnorm (mesh example_fv) unit_v)
       + garea (mesh example_fv) 0 / 1 * unit_v 0 0 = 2
   \<and> snd (compute_jac_vec example_fv
          (fst (compute_residual example_fv example_u (\<lambda>k j. 0) False uninitialised))
          example_u unit_v True (\<lambda>iel. 1) uninitialised (\<lambda>k j. 0)) 0 0 = 2
   \<and> 0 < 10 / sqrt (22 / 10 ^ 17)"
proof -
  define h where "h = sqrt (22 / 10 ^ 17) / 10"
  have h0: "0 < h"
    by (simp add: h_def)
  have hh: "eps example_fv / sqrt (dot (gnelem (mesh example_fv) * NVARS) unit_v unit_v) = h"
    using ex_vnorm by (simp add: h_def ex_eps vnorm_def dot_cells power2_eq_square)
  have hv: "eps example_fv / vnorm (mesh example_fv) unit_v = h"
    by (simp add: h_def ex_eps ex_vnorm)
  have p: "perturbed_state example_fv example_u unit_v uninitialised 0 0 = 1 + h"
    "perturbed_state example_fv example_u unit_v uninitialised (Suc 0) 0 = 2"
    unfolding perturbed_state_def hh by (simp_all add: unit_v_def less_NVARS)
  have r: "fst (compute_residual example_fv
                  (perturbed_state example_fv example_u unit_v uninitialised) r False d) 0 0
             = r 0 0 + 5 / 2 + h" for r d
    by (simp add: ex_residual_gen p add_divide_distrib)
  have v0: "unit_v 0 0 = 1"
    by (simp add: unit_v_def)
  have gen: "snd (compute_jac_vec example_fv
          (fst (compute_residual example_fv example_u (\<lambda>k j. 0) False uninitialised))
          example_u unit_v True (\<lambda>iel. 1) uninitialised r) 0 0 = (r 0 0 + h) / h + 1" for r
    unfolding compute_jac_vec_prod hh by (simp add: r ex_residual_0_0 less_NVARS v0)
  have x1: "snd (compute_jac_vec example_fv
          (fst (compute_residual example_fv example_u (\<lambda>k j. 0) False uninitialised))
          example_u unit_v True (\<lambda>iel. 1) uninitialised (\<lambda>k j. 1)) 0 0 = 2 + 1 / h"
    using h0 by (simp add: gen add_divide_distrib)
  have q: "(fst (compute_residual example_fv
             (perturbed_state example_fv example_u unit_v uninitialised)
             (\<lambda>k j. 0) False uninitialised) 0 0
        - fst (compute_residual example_fv example_u (\<lambda>k j. 0) False uninitialised) 0 0)
       / (eps example_fv / vnorm (mesh example_fv) unit_v)
       + garea (mesh example_fv) 0 / 1 * unit_v 0 0 = 2"
    unfolding hv using h0 by (simp add: r ex_residual_0_0 v0)
  have x0: "snd (compute_jac_vec example_fv
          (fst (compute_residual example_fv example_u (\<lambda>k j. 0) False uninitialised))
          example_u unit_v True (\<lambda>iel. 1) uninitialised (\<lambda>k j. 0)) 0 0 = 2"
    using h0 by (simp add: gen)
  have "1 / h = 10 / sqrt (22 / 10 ^ 17)"
    by (simp add: h_def)
  moreover have "0 < 10 / sqrt (22 / 10 ^ 17)"
    by simp
  ultimately show ?thesis
    using x0 x1 q by simp
qed

end
